theory Spec2Isabelle
  imports Main
begin

section \<open>Python values\<close>

text \<open>
  The record collection of \<^verbatim>\<open>bot.py\<close> is whatever \<^verbatim>\<open>json.loads\<close> returns for the remote
  document: lists, dicts, strings, numbers, booleans and \<^verbatim>\<open>None\<close>. A dict keeps its insertion
  order (it decides what \<^verbatim>\<open>json.dumps\<close> prints), so it is an association list; a dict the
  program builds never holds a key twice. Strings are byte strings: the UTF-8 encoding of the
  Python text, a surrogate code point encoded like any other. A number with a fraction or an
  exponent is kept as its literal: floating point arithmetic is not modelled, and the
  statements that compare or print values are about values without floats.
\<close>

datatype pyval =
    PNone
  | PBool bool
  | PInt int
  | PFloat string
  | PStr string
  | PList "pyval list"
  | PDict "(string \<times> pyval) list"

datatype exn =
    RequestException
  | JSONDecodeError
  | TypeError
  | AttributeError
  | KeyError
  | ValueError
  | RecursionError
  | UnicodeEncodeError

text \<open>\<^verbatim>\<open>d.get(key)\<close>: \<^verbatim>\<open>None\<close> (here \<open>PNone\<close>) for a missing key, AttributeError when
  \<open>d\<close> is not a dict.\<close>

fun py_get :: "pyval \<Rightarrow> string \<Rightarrow> exn + pyval" where
  "py_get (PDict kvs) k = (case map_of kvs k of None \<Rightarrow> Inr PNone | Some v \<Rightarrow> Inr v)"
| "py_get _ k = Inl AttributeError"

text \<open>The characters of a text: a byte from 128 to 191 continues the character before
  it.\<close>

definition is_continuation :: "char \<Rightarrow> bool" where
  "is_continuation c = (let n = (of_char c :: nat) in 128 \<le> n \<and> n < 192)"

function utf8_chars :: "string \<Rightarrow> string list" where
  "utf8_chars [] = []"
| "utf8_chars (c # cs) =
     (c # takeWhile is_continuation cs) # utf8_chars (dropWhile is_continuation cs)"
  by pat_completeness auto
termination
  by (relation "measure length") (auto simp: less_Suc_eq_le length_dropWhile_le)

text \<open>\<^verbatim>\<open>len(x)\<close>: TypeError for a value without a length.\<close>

fun py_len :: "pyval \<Rightarrow> exn + nat" where
  "py_len (PStr s) = Inr (length (utf8_chars s))"
| "py_len (PList xs) = Inr (length xs)"
| "py_len (PDict kvs) = Inr (length kvs)"
| "py_len _ = Inl TypeError"

text \<open>Truth value of an object, as \<^verbatim>\<open>if not users\<close> tests it.\<close>

fun py_truthy :: "pyval \<Rightarrow> bool" where
  "py_truthy PNone = False"
| "py_truthy (PBool b) = b"
| "py_truthy (PInt i) = (i \<noteq> 0)"
| "py_truthy (PFloat f) =
     (\<not> list_all (\<lambda>c. c \<in> set ''-0.'') (takeWhile (\<lambda>c. c \<notin> set ''eE'') f))"
| "py_truthy (PStr s) = (s \<noteq> [])"
| "py_truthy (PList xs) = (xs \<noteq> [])"
| "py_truthy (PDict kvs) = (kvs \<noteq> [])"

text \<open>Iterating a value in a \<^verbatim>\<open>for\<close>: the elements of a list, the characters of a string,
  the keys of a dict; TypeError otherwise.\<close>

fun py_iter :: "pyval \<Rightarrow> exn + pyval list" where
  "py_iter (PList xs) = Inr xs"
| "py_iter (PStr s) = Inr (map PStr (utf8_chars s))"
| "py_iter (PDict kvs) = Inr (map (\<lambda>kv. PStr (fst kv)) kvs)"
| "py_iter _ = Inl TypeError"

text \<open>
  \<^verbatim>\<open>a == b\<close>. Booleans are integers (\<^verbatim>\<open>True == 1\<close>); lists are equal pointwise; dicts are
  equal when they have the same number of keys and every key of the left one is bound to an
  equal value in the right one, whatever the order. The comparison of floats is outside the
  model: their literals are compared as written.
\<close>

fun py_eq :: "pyval \<Rightarrow> pyval \<Rightarrow> bool"
  and py_eq_list :: "pyval list \<Rightarrow> pyval list \<Rightarrow> bool"
  and py_eq_items :: "(string \<times> pyval) list \<Rightarrow> (string \<times> pyval) list \<Rightarrow> bool" where
  "py_eq PNone w = (w = PNone)"
| "py_eq (PBool a) w = (case w of PBool b \<Rightarrow> a = b | PInt j \<Rightarrow> (if a then 1 else 0) = j | _ \<Rightarrow> False)"
| "py_eq (PInt i) w = (case w of PBool b \<Rightarrow> i = (if b then 1 else 0) | PInt j \<Rightarrow> i = j | _ \<Rightarrow> False)"
| "py_eq (PFloat f) w = (case w of PFloat g \<Rightarrow> f = g | _ \<Rightarrow> False)"
| "py_eq (PStr s) w = (case w of PStr t \<Rightarrow> s = t | _ \<Rightarrow> False)"
| "py_eq (PList xs) w = (case w of PList ys \<Rightarrow> py_eq_list xs ys | _ \<Rightarrow> False)"
| "py_eq (PDict kvs) w =
     (case w of PDict kws \<Rightarrow> length kvs = length kws \<and> py_eq_items kvs kws | _ \<Rightarrow> False)"
| "py_eq_list [] ys = (ys = [])"
| "py_eq_list (x # xs) ys = (case ys of [] \<Rightarrow> False | y # ys' \<Rightarrow> py_eq x y \<and> py_eq_list xs ys')"
| "py_eq_items [] kws = True"
| "py_eq_items (kv # kvs) kws =
     (case map_of kws (fst kv) of None \<Rightarrow> False | Some w \<Rightarrow> py_eq (snd kv) w \<and> py_eq_items kvs kws)"


section \<open>The standard library on ASCII text\<close>

text \<open>
  The handlers take the functions of the standard library as a parameter (the record
  \<open>pylib\<close> below), so what is proved of them holds whatever these functions do on any text.
  This section and the next give their behaviour on ASCII text, for the runs that are
  evaluated: \<^verbatim>\<open>strip\<close> removes the white space of \<^verbatim>\<open>str.isspace\<close> (codes 9 to 13, 28 to 32)
  at both ends, \<^verbatim>\<open>lower\<close> maps A..Z to a..z, \<^verbatim>\<open>isdigit\<close> holds for a non-empty string of
  decimal digits and \<^verbatim>\<open>int\<close> reads one.
\<close>

definition is_space :: "char \<Rightarrow> bool" where
  "is_space c = (let n = (of_char c :: nat) in (9 \<le> n \<and> n \<le> 13) \<or> (28 \<le> n \<and> n \<le> 32))"

definition py_strip :: "string \<Rightarrow> string" where
  "py_strip s = rev (dropWhile is_space (rev (dropWhile is_space s)))"

definition py_lower_char :: "char \<Rightarrow> char" where
  "py_lower_char c =
     (let n = (of_char c :: nat) in if 65 \<le> n \<and> n \<le> 90 then char_of (n + 32) else c)"

definition py_lower :: "string \<Rightarrow> string" where
  "py_lower s = map py_lower_char s"

definition is_digit :: "char \<Rightarrow> bool" where
  "is_digit c = (let n = (of_char c :: nat) in 48 \<le> n \<and> n \<le> 57)"

definition digit_val :: "char \<Rightarrow> nat" where
  "digit_val c = of_char c - 48"

definition py_isdigit :: "string \<Rightarrow> bool" where
  "py_isdigit s = (s \<noteq> [] \<and> list_all is_digit s)"

definition int_of_digits :: "string \<Rightarrow> nat" where
  "int_of_digits s = foldl (\<lambda>n c. 10 * n + digit_val c) 0 s"

definition digit_char :: "nat \<Rightarrow> char" where
  "digit_char n = char_of (48 + n)"

text \<open>\<^verbatim>\<open>str(n)\<close> for a natural number, and \<^verbatim>\<open>int.__repr__\<close>.\<close>

function show_nat :: "nat \<Rightarrow> string" where
  "show_nat n = (if n < 10 then [digit_char n] else show_nat (n div 10) @ [digit_char (n mod 10)])"
  by pat_completeness auto
termination
  by (relation "measure id") auto

declare show_nat.simps [simp del]

definition show_int :: "int \<Rightarrow> string" where
  "show_int i = (if i < 0 then CHR ''-'' # show_nat (nat (- i)) else show_nat (nat i))"

subsection \<open>\<^verbatim>\<open>datetime.strptime(s, "%Y-%m-%d")\<close>\<close>

text \<open>
  On ASCII text the format compiles to the regular expression
  \<^verbatim>\<open>(\d\d\d\d)-(1[0-2]|0[1-9]|[1-9])-(3[0-1]|[1-2]\d|0[1-9]|[1-9]| [1-9])\<close>, matched at the start
  of the string; text left over after the match, a year 0 and a day the month does not have
  raise ValueError (here \<open>None\<close>).
\<close>

definition match_month :: "string \<Rightarrow> (nat \<times> string) option" where
  "match_month s =
     (case s of
        a # b # cs \<Rightarrow>
          if a = CHR ''1'' \<and> b \<in> set ''012'' then Some (10 + digit_val b, cs)
          else if a = CHR ''0'' \<and> b \<in> set ''123456789'' then Some (digit_val b, cs)
          else if a \<in> set ''123456789'' then Some (digit_val a, b # cs)
          else None
      | [a] \<Rightarrow> if a \<in> set ''123456789'' then Some (digit_val a, []) else None
      | [] \<Rightarrow> None)"

definition match_day :: "string \<Rightarrow> (nat \<times> string) option" where
  "match_day s =
     (case s of
        a # b # cs \<Rightarrow>
          if a = CHR ''3'' \<and> b \<in> set ''01'' then Some (30 + digit_val b, cs)
          else if a \<in> set ''12'' \<and> is_digit b then Some (10 * digit_val a + digit_val b, cs)
          else if a = CHR ''0'' \<and> b \<in> set ''123456789'' then Some (digit_val b, cs)
          else if a \<in> set ''123456789'' then Some (digit_val a, b # cs)
          else if a = CHR '' '' \<and> b \<in> set ''123456789'' then Some (digit_val b, cs)
          else None
      | [a] \<Rightarrow> if a \<in> set ''123456789'' then Some (digit_val a, []) else None
      | [] \<Rightarrow> None)"

definition is_leap :: "nat \<Rightarrow> bool" where
  "is_leap y = (y mod 4 = 0 \<and> (y mod 100 \<noteq> 0 \<or> y mod 400 = 0))"

definition days_in_month :: "nat \<Rightarrow> nat \<Rightarrow> nat" where
  "days_in_month y m =
     (if m = 2 then (if is_leap y then 29 else 28)
      else if m \<in> {4, 6, 9, 11} then 30 else 31)"

definition strptime_ymd :: "string \<Rightarrow> (nat \<times> nat \<times> nat) option" where
  "strptime_ymd s =
     (case s of
        y1 # y2 # y3 # y4 # dash # s1 \<Rightarrow>
          if list_all is_digit [y1, y2, y3, y4] \<and> dash = CHR ''-'' then
            (case match_month s1 of
               None \<Rightarrow> None
             | Some (m, s2) \<Rightarrow>
                 (case s2 of
                    [] \<Rightarrow> None
                  | dash2 # s3 \<Rightarrow>
                      if dash2 = CHR ''-'' then
                        (case match_day s3 of
                           None \<Rightarrow> None
                         | Some (d, s4) \<Rightarrow>
                             let y = int_of_digits [y1, y2, y3, y4] in
                             if s4 = [] \<and> 1 \<le> y \<and> d \<le> days_in_month y m
                             then Some (y, m, d) else None)
                      else None))
          else None
      | _ \<Rightarrow> None)"


section \<open>The standard library's JSON codec\<close>

text \<open>
  \<^verbatim>\<open>json.dumps(users, indent=2, ensure_ascii=False)\<close> and \<^verbatim>\<open>json.loads(text)\<close>, on UTF-8
  bytes, for documents within the limits of the interpreter (its recursion limit and the
  4300 digits of an integer are not modelled). The encoder escapes the quote, the backslash and the control characters below 32 and
  leaves every other byte as it is; with an indent it puts each item of a non-empty list or
  dict on a line of its own, items separated by a comma and keys from values by a colon and
  a space.
\<close>

definition dq :: char where
  "dq = CHR 0x22"

definition bslash :: char where
  "bslash = CHR 0x5C"

definition hex_char :: "nat \<Rightarrow> char" where
  "hex_char n = (if n < 10 then char_of (48 + n) else char_of (87 + n))"

definition escape_char :: "char \<Rightarrow> string" where
  "escape_char c =
     (if c = dq then [bslash, dq]
      else if c = bslash then [bslash, bslash]
      else if c = CHR 0x0A then [bslash, CHR ''n'']
      else if c = CHR 0x0D then [bslash, CHR ''r'']
      else if c = CHR 0x09 then [bslash, CHR ''t'']
      else if c = CHR 0x08 then [bslash, CHR ''b'']
      else if c = CHR 0x0C then [bslash, CHR ''f'']
      else if (of_char c :: nat) < 32
        then [bslash, CHR ''u'', CHR ''0'', CHR ''0'',
              hex_char (of_char c div 16), hex_char (of_char c mod 16)]
      else [c])"

definition encode_basestring :: "string \<Rightarrow> string" where
  "encode_basestring s = dq # concat (map escape_char s) @ [dq]"

definition newline_indent :: "nat \<Rightarrow> string" where
  "newline_indent level = CHR 0x0A # replicate (2 * level) CHR '' ''"

fun iterencode :: "nat \<Rightarrow> pyval \<Rightarrow> string"
  and iterencode_list :: "nat \<Rightarrow> pyval list \<Rightarrow> string"
  and iterencode_dict :: "nat \<Rightarrow> (string \<times> pyval) list \<Rightarrow> string" where
  "iterencode level PNone = ''null''"
| "iterencode level (PBool b) = (if b then ''true'' else ''false'')"
| "iterencode level (PInt i) = show_int i"
| "iterencode level (PFloat f) = f"
| "iterencode level (PStr s) = encode_basestring s"
| "iterencode level (PList []) = ''[]''"
| "iterencode level (PList (x # xs)) =
     ''['' @ newline_indent (Suc level) @ iterencode (Suc level) x
       @ iterencode_list (Suc level) xs @ newline_indent level @ '']''"
| "iterencode level (PDict []) = ''{}''"
| "iterencode level (PDict (kv # kvs)) =
     ''{'' @ newline_indent (Suc level) @ encode_basestring (fst kv) @ '': ''
       @ iterencode (Suc level) (snd kv)
       @ iterencode_dict (Suc level) kvs @ newline_indent level @ ''}''"
| "iterencode_list level [] = []"
| "iterencode_list level (x # xs) =
     '','' @ newline_indent level @ iterencode level x @ iterencode_list level xs"
| "iterencode_dict level [] = []"
| "iterencode_dict level (kv # kvs) =
     '','' @ newline_indent level @ encode_basestring (fst kv) @ '': ''
       @ iterencode level (snd kv) @ iterencode_dict level kvs"

definition json_dumps :: "pyval \<Rightarrow> string" where
  "json_dumps v = iterencode 0 v"

subsection \<open>The decoder\<close>

definition is_ws :: "char \<Rightarrow> bool" where
  "is_ws c = (c = CHR '' '' \<or> c = CHR 0x09 \<or> c = CHR 0x0A \<or> c = CHR 0x0D)"

definition skip_ws :: "string \<Rightarrow> string" where
  "skip_ws s = dropWhile is_ws s"

definition hex_val :: "char \<Rightarrow> nat option" where
  "hex_val c =
     (let n = (of_char c :: nat) in
      if 48 \<le> n \<and> n \<le> 57 then Some (n - 48)
      else if 97 \<le> n \<and> n \<le> 102 then Some (n - 87)
      else if 65 \<le> n \<and> n \<le> 70 then Some (n - 55)
      else None)"

text \<open>The four hexadecimal digits of a \<^verbatim>\<open>\uXXXX\<close> escape.\<close>

definition decode_uXXXX :: "string \<Rightarrow> nat option" where
  "decode_uXXXX s =
     (case map hex_val (take 4 s) of
        [Some a, Some b, Some c, Some d] \<Rightarrow> Some (((a * 16 + b) * 16 + c) * 16 + d)
      | _ \<Rightarrow> None)"

text \<open>The UTF-8 bytes of a code point.\<close>

definition utf8 :: "nat \<Rightarrow> string" where
  "utf8 n =
     (if n < 128 then [char_of n]
      else if n < 2048 then [char_of (192 + n div 64), char_of (128 + n mod 64)]
      else if n < 65536 then
        [char_of (224 + n div 4096), char_of (128 + n div 64 mod 64), char_of (128 + n mod 64)]
      else
        [char_of (240 + n div 262144), char_of (128 + n div 4096 mod 64),
         char_of (128 + n div 64 mod 64), char_of (128 + n mod 64)])"

definition backslash :: "char \<Rightarrow> char option" where
  "backslash e =
     (if e = dq then Some dq
      else if e = bslash then Some bslash
      else if e = CHR ''/'' then Some CHR ''/''
      else if e = CHR ''b'' then Some (CHR 0x08)
      else if e = CHR ''f'' then Some (CHR 0x0C)
      else if e = CHR ''n'' then Some (CHR 0x0A)
      else if e = CHR ''r'' then Some (CHR 0x0D)
      else if e = CHR ''t'' then Some (CHR 0x09)
      else None)"

text \<open>
  \<^verbatim>\<open>scanstring\<close>, called after the opening quote: the text of the string and what follows
  its closing quote. A raw control character, an unknown escape and a missing closing quote
  are errors; a high surrogate followed by the escape of a low one is one code point.
\<close>

function scanstring :: "string \<Rightarrow> (string \<times> string) option" where
  "scanstring [] = None"
| "scanstring (c # cs) =
     (if c = dq then Some ([], cs)
      else if c = bslash then
        (case cs of
           [] \<Rightarrow> None
         | e # es \<Rightarrow>
             if e = CHR ''u'' then
               (case decode_uXXXX es of
                  None \<Rightarrow> None
                | Some u \<Rightarrow>
                    if 55296 \<le> u \<and> u \<le> 56319 \<and> take 2 (drop 4 es) = [bslash, CHR ''u''] then
                      (case decode_uXXXX (drop 6 es) of
                         None \<Rightarrow> None
                       | Some u2 \<Rightarrow>
                           if 56320 \<le> u2 \<and> u2 \<le> 57343 then
                             map_option
                               (\<lambda>(t, r). (utf8 (65536 + (u - 55296) * 1024 + (u2 - 56320)) @ t, r))
                               (scanstring (drop 10 es))
                           else map_option (\<lambda>(t, r). (utf8 u @ t, r)) (scanstring (drop 4 es)))
                    else map_option (\<lambda>(t, r). (utf8 u @ t, r)) (scanstring (drop 4 es)))
             else
               (case backslash e of
                  None \<Rightarrow> None
                | Some ch \<Rightarrow> map_option (\<lambda>(t, r). (ch # t, r)) (scanstring es)))
      else if (of_char c :: nat) < 32 then None
      else map_option (\<lambda>(t, r). (c # t, r)) (scanstring cs))"
  by pat_completeness auto
termination
  by (relation "measure length") auto

text \<open>
  A number: \<^verbatim>\<open>(-?(?:0|[1-9][0-9]*))(\.[0-9]+)?([eE][-+]?[0-9]+)?\<close>. Without a fraction and
  an exponent it is an integer.
\<close>

definition match_frac :: "string \<Rightarrow> string \<times> string" where
  "match_frac s =
     (case s of
        c # cs \<Rightarrow>
          if c = CHR ''.'' \<and> takeWhile is_digit cs \<noteq> []
          then (c # takeWhile is_digit cs, dropWhile is_digit cs) else ([], s)
      | [] \<Rightarrow> ([], s))"

definition match_exp :: "string \<Rightarrow> string \<times> string" where
  "match_exp s =
     (case s of
        c # cs \<Rightarrow>
          if c = CHR ''e'' \<or> c = CHR ''E'' then
            (let sg = (case cs of d # ds \<Rightarrow> if d = CHR ''-'' \<or> d = CHR ''+'' then [d] else [] | [] \<Rightarrow> []);
                 ds = drop (length sg) cs
             in if takeWhile is_digit ds \<noteq> []
                then (c # sg @ takeWhile is_digit ds, dropWhile is_digit ds) else ([], s))
          else ([], s)
      | [] \<Rightarrow> ([], s))"

definition match_number :: "string \<Rightarrow> (pyval \<times> string) option" where
  "match_number s =
     (let sg = (case s of c # cs \<Rightarrow> if c = CHR ''-'' then [c] else [] | [] \<Rightarrow> []);
          s1 = drop (length sg) s
      in case s1 of
           [] \<Rightarrow> None
         | d # ds \<Rightarrow>
             if is_digit d then
               (let ip = (if d = CHR ''0'' then [d] else d # takeWhile is_digit ds);
                    r = drop (length ip) s1;
                    (frac, r1) = match_frac r;
                    (ex, r2) = match_exp r1
                in if frac = [] \<and> ex = []
                   then Some (PInt (if sg = [] then int (int_of_digits ip)
                                    else - int (int_of_digits ip)), r2)
                   else Some (PFloat (sg @ ip @ frac @ ex), r2))
             else None)"

text \<open>\<^verbatim>\<open>dict(pairs)\<close>: a later pair replaces the value of an earlier one with its key, in
  place.\<close>

fun dict_set :: "string \<Rightarrow> pyval \<Rightarrow> (string \<times> pyval) list \<Rightarrow> (string \<times> pyval) list" where
  "dict_set k v [] = [(k, v)]"
| "dict_set k v (p # ps) = (if fst p = k then (k, v) # ps else p # dict_set k v ps)"

definition dict_of_pairs :: "(string \<times> pyval) list \<Rightarrow> (string \<times> pyval) list" where
  "dict_of_pairs ps = foldl (\<lambda>d p. dict_set (fst p) (snd p) d) [] ps"

text \<open>
  The scanner, with the depth of the Python stack as fuel: every call uses one unit.
  \<open>parse_array\<close> starts at the first item of a non-empty array, \<open>parse_object\<close> after the
  opening quote of the first key.
\<close>

fun scan_once :: "nat \<Rightarrow> string \<Rightarrow> (pyval \<times> string) option"
  and parse_array :: "nat \<Rightarrow> string \<Rightarrow> (pyval list \<times> string) option"
  and parse_object :: "nat \<Rightarrow> string \<Rightarrow> ((string \<times> pyval) list \<times> string) option" where
  "scan_once 0 s = None"
| "scan_once (Suc n) s =
     (case s of
        [] \<Rightarrow> None
      | c # cs \<Rightarrow>
          if c = dq then map_option (\<lambda>(t, r). (PStr t, r)) (scanstring cs)
          else if c = CHR ''{'' then
            (case skip_ws cs of
               [] \<Rightarrow> None
             | d # ds \<Rightarrow>
                 if d = CHR ''}'' then Some (PDict [], ds)
                 else if d = dq then
                   map_option (\<lambda>(ps, r). (PDict (dict_of_pairs ps), r)) (parse_object n ds)
                 else None)
          else if c = CHR ''['' then
            (case skip_ws cs of
               [] \<Rightarrow> None
             | d # ds \<Rightarrow>
                 if d = CHR '']'' then Some (PList [], ds)
                 else map_option (\<lambda>(xs, r). (PList xs, r)) (parse_array n (d # ds)))
          else if take 4 s = ''null'' then Some (PNone, drop 4 s)
          else if take 4 s = ''true'' then Some (PBool True, drop 4 s)
          else if take 5 s = ''false'' then Some (PBool False, drop 5 s)
          else
            (case match_number s of
               Some res \<Rightarrow> Some res
             | None \<Rightarrow>
                 if take 3 s = ''NaN'' then Some (PFloat ''NaN'', drop 3 s)
                 else if take 8 s = ''Infinity'' then Some (PFloat ''Infinity'', drop 8 s)
                 else if take 9 s = ''-Infinity'' then Some (PFloat ''-Infinity'', drop 9 s)
                 else None))"
| "parse_array 0 s = None"
| "parse_array (Suc n) s =
     (case scan_once n s of
        None \<Rightarrow> None
      | Some (v, r) \<Rightarrow>
          (case skip_ws r of
             [] \<Rightarrow> None
           | c # cs \<Rightarrow>
               if c = CHR '']'' then Some ([v], cs)
               else if c = CHR '','' then
                 map_option (\<lambda>(vs, r'). (v # vs, r')) (parse_array n (skip_ws cs))
               else None))"
| "parse_object 0 s = None"
| "parse_object (Suc n) s =
     (case scanstring s of
        None \<Rightarrow> None
      | Some (k, r) \<Rightarrow>
          (case skip_ws r of
             [] \<Rightarrow> None
           | c # cs \<Rightarrow>
               if c = CHR '':'' then
                 (case scan_once n (skip_ws cs) of
                    None \<Rightarrow> None
                  | Some (v, r2) \<Rightarrow>
                      (case skip_ws r2 of
                         [] \<Rightarrow> None
                       | e # es \<Rightarrow>
                           if e = CHR ''}'' then Some ([(k, v)], es)
                           else if e = CHR '','' then
                             (case skip_ws es of
                                [] \<Rightarrow> None
                              | q # qs \<Rightarrow>
                                  if q = dq then
                                    map_option (\<lambda>(ps, r'). ((k, v) # ps, r')) (parse_object n qs)
                                  else None)
                           else None))
               else None))"

text \<open>\<^verbatim>\<open>json.loads\<close>: one document, white space around it, nothing after it; \<open>None\<close> is
  JSONDecodeError.\<close>

definition json_loads :: "string \<Rightarrow> pyval option" where
  "json_loads s =
     (case scan_once (Suc (length s)) (skip_ws s) of
        None \<Rightarrow> None
      | Some (v, r) \<Rightarrow> if skip_ws r = [] then Some v else None)"

text \<open>\<^verbatim>\<open>content.encode("utf-8")\<close> raises UnicodeEncodeError when the text holds a surrogate
  code point: in UTF-8 bytes, the byte 0xED followed by a byte from 0xA0 on.\<close>

fun has_surrogate :: "string \<Rightarrow> bool" where
  "has_surrogate (a # b # cs) =
     ((a = CHR 0xED \<and> 160 \<le> (of_char b :: nat)) \<or> has_surrogate (b # cs))"
| "has_surrogate _ = False"

section \<open>The library as a parameter\<close>

text \<open>
  What \<^verbatim>\<open>bot.py\<close> calls in the standard library: \<^verbatim>\<open>json.loads\<close>; \<^verbatim>\<open>json.dumps\<close> with an
  indent of 2 followed by \<^verbatim>\<open>encode("utf-8")\<close>; the methods \<^verbatim>\<open>strip\<close>, \<^verbatim>\<open>lower\<close> and
  \<^verbatim>\<open>isdigit\<close> of a string; \<^verbatim>\<open>int\<close>; \<^verbatim>\<open>datetime.strptime\<close> with the format
  \<^verbatim>\<open>%Y-%m-%d\<close>. The codec, \<^verbatim>\<open>int\<close> and \<^verbatim>\<open>strptime\<close> may raise. The gateway and the
  handlers take the library as a parameter, so what is proved of them for every library
  holds whatever these functions do on text beyond ASCII, on floats, and at the limits of
  the interpreter (the digits of an integer, the depth of nesting).
\<close>

record pylib =
  lib_loads :: "string \<Rightarrow> exn + pyval"
  lib_dumps :: "pyval \<Rightarrow> exn + string"
  lib_strip :: "string \<Rightarrow> string"
  lib_lower :: "string \<Rightarrow> string"
  lib_isdigit :: "string \<Rightarrow> bool"
  lib_int :: "string \<Rightarrow> exn + int"
  lib_strptime :: "string \<Rightarrow> exn + nat \<times> nat \<times> nat"

text \<open>The library of the sections above.\<close>

definition stdlib :: pylib where
  "stdlib =
     \<lparr>lib_loads = (\<lambda>s. case json_loads s of None \<Rightarrow> Inl JSONDecodeError | Some v \<Rightarrow> Inr v),
      lib_dumps = (\<lambda>v. if has_surrogate (json_dumps v) then Inl UnicodeEncodeError
                         else Inr (json_dumps v)),
      lib_strip = py_strip,
      lib_lower = py_lower,
      lib_isdigit = py_isdigit,
      lib_int = (\<lambda>s. if py_isdigit s then Inr (int (int_of_digits s)) else Inl ValueError),
      lib_strptime = (\<lambda>s. case strptime_ymd s of None \<Rightarrow> Inl ValueError | Some d \<Rightarrow> Inr d)\<rparr>"

section \<open>The record store gateway\<close>

text \<open>
  The remote store is the environment of the program: the answers it will give to the next
  requests, in order, and the requests sent so far. A request that gets no answer is a
  \<^verbatim>\<open>requests.exceptions.RequestException\<close> (a timeout), like every other transport error.
  The content of an update is kept as the serialized document; its base64 transport
  encoding is not modelled.
\<close>

datatype http_reply =
    NetworkError
  | Response (status_code: int) (response_text: string)

datatype accept = Accept_raw | Accept_json

record commit_data =
  message :: string
  content :: string
  sha :: pyval
  branch :: string

datatype request =
    GET accept
  | PUT commit_data

record env =
  responses :: "http_reply list"
  requests :: "request list"
  now :: string

definition send_request :: "request \<Rightarrow> env \<Rightarrow> http_reply \<times> env" where
  "send_request rq e =
     (case responses e of
        [] \<Rightarrow> (NetworkError, e\<lparr>requests := requests e @ [rq]\<rparr>)
      | r # rs \<Rightarrow> (r, e\<lparr>responses := rs, requests := requests e @ [rq]\<rparr>))"

definition requests_get :: "accept \<Rightarrow> env \<Rightarrow> http_reply \<times> env" where
  "requests_get a e = send_request (GET a) e"

definition requests_put :: "commit_data \<Rightarrow> env \<Rightarrow> http_reply \<times> env" where
  "requests_put c e = send_request (PUT c) e"

subsection \<open>\<^verbatim>\<open>load_users\<close>\<close>

text \<open>The inner \<^verbatim>\<open>try\<close> of \<^verbatim>\<open>load_users\<close>, on the text of a 200 answer. The length of the
  \<^verbatim>\<open>users\<close> entry is taken for the log line, which raises TypeError when it has none.\<close>

definition load_users_parse :: "pylib \<Rightarrow> string \<Rightarrow> exn + pyval" where
  "load_users_parse lib txt =
     (case lib_loads lib txt of
        Inl x \<Rightarrow> Inl x
      | Inr data \<Rightarrow>
          (case data of
             PList xs \<Rightarrow> Inr data
           | PDict kvs \<Rightarrow>
               (case map_of kvs ''users'' of
                  Some users_list \<Rightarrow>
                    (case py_len users_list of
                       Inl x \<Rightarrow> Inl x
                     | Inr n \<Rightarrow> Inr users_list)
                | None \<Rightarrow> Inr (PList []))
           | _ \<Rightarrow> Inr (PList [])))"

text \<open>The outer \<^verbatim>\<open>try\<close>; the inner \<^verbatim>\<open>except json.JSONDecodeError\<close> returns the empty
  list.\<close>

definition load_users_try :: "pylib \<Rightarrow> env \<Rightarrow> (exn + pyval) \<times> env" where
  "load_users_try lib e =
     (case requests_get Accept_raw e of
        (NetworkError, e') \<Rightarrow> (Inl RequestException, e')
      | (Response status txt, e') \<Rightarrow>
          if status = 200 then
            (case load_users_parse lib txt of
               Inl JSONDecodeError \<Rightarrow> (Inr (PList []), e')
             | Inl x \<Rightarrow> (Inl x, e')
             | Inr v \<Rightarrow> (Inr v, e'))
          else if status = 404 then (Inr (PList []), e')
          else (Inr (PList []), e'))"

text \<open>\<^verbatim>\<open>except requests.exceptions.RequestException\<close> and \<^verbatim>\<open>except Exception\<close> both
  return the empty list.\<close>

definition load_users :: "pylib \<Rightarrow> env \<Rightarrow> (exn + pyval) \<times> env" where
  "load_users lib e =
     (case load_users_try lib e of
        (Inl RequestException, e') \<Rightarrow> (Inr (PList []), e')
      | (Inl x, e') \<Rightarrow> (Inr (PList []), e')
      | (Inr v, e') \<Rightarrow> (Inr v, e'))"

subsection \<open>\<^verbatim>\<open>save_users\<close>\<close>

text \<open>\<^verbatim>\<open>d.get(key, default)\<close> and the slice \<^verbatim>\<open>sha[:20]\<close> of the log line, which only strings
  and lists have.\<close>

fun py_get_default :: "pyval \<Rightarrow> string \<Rightarrow> pyval \<Rightarrow> exn + pyval" where
  "py_get_default (PDict kvs) k d = (case map_of kvs k of None \<Rightarrow> Inr d | Some v \<Rightarrow> Inr v)"
| "py_get_default _ k d = Inl AttributeError"

fun py_slice20 :: "pyval \<Rightarrow> exn + pyval" where
  "py_slice20 (PStr s) = Inr (PStr (concat (take 20 (utf8_chars s))))"
| "py_slice20 (PList xs) = Inr (PList (take 20 xs))"
| "py_slice20 _ = Inl TypeError"

text \<open>The dict \<^verbatim>\<open>commit_data\<close>: the message names the number of records and the time.\<close>

definition make_commit :: "string \<Rightarrow> nat \<Rightarrow> pyval \<Rightarrow> string \<Rightarrow> commit_data" where
  "make_commit serialized n sha_token time =
     \<lparr>message = ''Bot update: '' @ show_nat n @ '' users - '' @ time,
      content = serialized, sha = sha_token, branch = ''main''\<rparr>"

text \<open>From \<^verbatim>\<open>content = json.dumps(...)\<close> and its encoding to the answer of the update
  request; \<^verbatim>\<open>len(users)\<close> is taken for the message.\<close>

definition save_users_put :: "pylib \<Rightarrow> pyval \<Rightarrow> pyval \<Rightarrow> env \<Rightarrow> (exn + bool) \<times> env" where
  "save_users_put lib users sha_token e =
     (case lib_dumps lib users of
        Inl x \<Rightarrow> (Inl x, e)
      | Inr serialized \<Rightarrow>
          (case py_len users of
             Inl x \<Rightarrow> (Inl x, e)
           | Inr n \<Rightarrow>
               (case requests_put (make_commit serialized n sha_token (now e)) e of
                  (NetworkError, e') \<Rightarrow> (Inl RequestException, e')
                | (Response status txt, e') \<Rightarrow>
                    if status = 200 \<or> status = 201 then (Inr True, e') else (Inr False, e'))))"

text \<open>\<^verbatim>\<open>get_response.json()\<close> parses the text of the answer like \<^verbatim>\<open>json.loads\<close>.\<close>

definition save_users_try :: "pylib \<Rightarrow> pyval \<Rightarrow> env \<Rightarrow> (exn + bool) \<times> env" where
  "save_users_try lib users e =
     (case requests_get Accept_json e of
        (NetworkError, e') \<Rightarrow> (Inl RequestException, e')
      | (Response status txt, e') \<Rightarrow>
          if status = 200 then
            (case lib_loads lib txt of
               Inl x \<Rightarrow> (Inl x, e')
             | Inr meta \<Rightarrow>
                 (case py_get_default meta ''sha'' (PStr []) of
                    Inl x \<Rightarrow> (Inl x, e')
                  | Inr sha_token \<Rightarrow>
                      (case py_slice20 sha_token of
                         Inl x \<Rightarrow> (Inl x, e')
                       | Inr shown \<Rightarrow> save_users_put lib users sha_token e')))
          else if status = 404 then (Inr False, e')
          else (Inr False, e'))"

definition save_users :: "pylib \<Rightarrow> pyval \<Rightarrow> env \<Rightarrow> (exn + bool) \<times> env" where
  "save_users lib users e =
     (case save_users_try lib users e of
        (Inl RequestException, e') \<Rightarrow> (Inr False, e')
      | (Inl x, e') \<Rightarrow> (Inr False, e')
      | (Inr b, e') \<Rightarrow> (Inr b, e'))"

section \<open>The conversation engine\<close>

text \<open>
  \<^verbatim>\<open>user_states\<close> maps an operator to a dict with the key \<^verbatim>\<open>'state'\<close> and the fields
  collected so far; a field that is not there yet is \<open>None\<close>, and reading it raises
  KeyError. The messages sent to the chat are recorded by what they say, not by their text;
  sending one never fails.
\<close>

datatype label =
    awaiting_device_id
  | awaiting_username
  | awaiting_password
  | awaiting_expiration
  | awaiting_offline
  | confirm_duplicate
  | awaiting_remove_username
  | awaiting_remove_choice
  | confirm_remove_single
  | confirm_remove_all

record conv =
  state :: label
  device_id :: "string option"
  username :: "string option"
  password :: "string option"
  expiresAt :: "string option"
  allowOffline :: "bool option"
  remove_username :: "string option"
  matching_users :: "pyval list option"
  remove_user :: "pyval option"

definition new_conv :: "label \<Rightarrow> conv" where
  "new_conv l =
     \<lparr>state = l, device_id = None, username = None, password = None, expiresAt = None,
      allowOffline = None, remove_username = None, matching_users = None, remove_user = None\<rparr>"

definition DEFAULT_DATE :: string where
  "DEFAULT_DATE = ''2025-12-12''"

datatype msg =
    Enter_device_id
  | Enter_remove_username
  | Operation_cancelled
  | Lets_add_user
  | Use_buttons
  | Enter_username
  | Enter_password
  | Enter_expiration
  | Allow_offline
  | Invalid_date
  | No_users_found
  | User_not_found string
  | Found_many "pyval list" string
  | Found_user pyval
  | Confirm_remove_all string
  | Selected_user pyval
  | Invalid_choice
  | Invalid_input
  | Already_exists
  | Creation_success pyval nat
  | Failed_to_save_user
  | Error_message exn
  | User_removed
  | Failed_to_remove_user
  | All_removed string
  | Failed_to_remove_users
  | Created_successfully pyval
  | Failed_to_save
  | Welcome

datatype out_event =
    Answer
  | Reply msg
  | Edit msg

record world =
  user_states :: "int \<rightharpoonup> conv"
  remote :: env
  outbox :: "(int \<times> out_event) list"

definition emit :: "int \<Rightarrow> out_event \<Rightarrow> world \<Rightarrow> world" where
  "emit uid ev w = w\<lparr>outbox := outbox w @ [(uid, ev)]\<rparr>"

definition put_conv :: "int \<Rightarrow> conv \<Rightarrow> world \<Rightarrow> world" where
  "put_conv uid c w = w\<lparr>user_states := (user_states w)(uid \<mapsto> c)\<rparr>"

definition pop_conv :: "int \<Rightarrow> world \<Rightarrow> world" where
  "pop_conv uid w = w\<lparr>user_states := (user_states w)(uid := None)\<rparr>"

subsection \<open>Menu buttons and commands\<close>

text \<open>\<^verbatim>\<open>button_handler\<close> on the payloads that touch the conversation state. Its other
  payloads (\<^verbatim>\<open>list_users\<close>, \<^verbatim>\<open>help\<close>, \<^verbatim>\<open>debug\<close>) call commands that never read or write
  \<^verbatim>\<open>user_states\<close>.\<close>

datatype menu_button = cb_add_user | cb_remove_user | cb_cancel

fun button_handler :: "int \<Rightarrow> menu_button \<Rightarrow> world \<Rightarrow> world" where
  "button_handler uid cb_add_user w =
     emit uid (Edit Enter_device_id) (put_conv uid (new_conv awaiting_device_id) (emit uid Answer w))"
| "button_handler uid cb_remove_user w =
     emit uid (Edit Enter_remove_username)
       (put_conv uid (new_conv awaiting_remove_username) (emit uid Answer w))"
| "button_handler uid cb_cancel w =
     emit uid (Edit Operation_cancelled)
       (let w0 = emit uid Answer w in
        if user_states w0 uid \<noteq> None then pop_conv uid w0 else w0)"

definition add_user_command :: "int \<Rightarrow> world \<Rightarrow> world" where
  "add_user_command uid w = emit uid (Reply Lets_add_user) (put_conv uid (new_conv awaiting_device_id) w)"

definition remove_user_command :: "int \<Rightarrow> world \<Rightarrow> world" where
  "remove_user_command uid w =
     emit uid (Reply Enter_remove_username) (put_conv uid (new_conv awaiting_remove_username) w)"

subsection \<open>\<^verbatim>\<open>handle_message\<close>\<close>

text \<open>A list comprehension and \<^verbatim>\<open>any\<close> over a condition that can raise: the comprehension
  evaluates it on every element, \<^verbatim>\<open>any\<close> stops at the first element that satisfies it.\<close>

fun list_comp :: "('a \<Rightarrow> exn + bool) \<Rightarrow> 'a list \<Rightarrow> exn + 'a list" where
  "list_comp p [] = Inr []"
| "list_comp p (x # xs) =
     (case p x of
        Inl e \<Rightarrow> Inl e
      | Inr b \<Rightarrow>
          (case list_comp p xs of
             Inl e \<Rightarrow> Inl e
           | Inr ys \<Rightarrow> Inr (if b then x # ys else ys)))"

fun py_any :: "('a \<Rightarrow> exn + bool) \<Rightarrow> 'a list \<Rightarrow> exn + bool" where
  "py_any p [] = Inr False"
| "py_any p (x # xs) =
     (case p x of
        Inl e \<Rightarrow> Inl e
      | Inr b \<Rightarrow> if b then Inr True else py_any p xs)"

text \<open>\<^verbatim>\<open>user.get("username") == username\<close> and its negation.\<close>

definition username_is :: "string \<Rightarrow> pyval \<Rightarrow> exn + bool" where
  "username_is name u =
     (case py_get u ''username'' of
        Inl e \<Rightarrow> Inl e
      | Inr v \<Rightarrow> Inr (py_eq v (PStr name)))"

definition username_is_not :: "string \<Rightarrow> pyval \<Rightarrow> exn + bool" where
  "username_is_not name u =
     (case py_get u ''username'' of
        Inl e \<Rightarrow> Inl e
      | Inr v \<Rightarrow> Inr (\<not> py_eq v (PStr name)))"

text \<open>The branch of the state \<^verbatim>\<open>awaiting_remove_username\<close>.\<close>

definition remove_username_step :: "pylib \<Rightarrow> int \<Rightarrow> string \<Rightarrow> conv \<Rightarrow> world \<Rightarrow> exn option \<times> world" where
  "remove_username_step lib uid name c w =
     (case load_users lib (remote w) of
        (Inl x, e) \<Rightarrow> (Some x, w\<lparr>remote := e\<rparr>)
      | (Inr users, e) \<Rightarrow>
          (let w1 = w\<lparr>remote := e\<rparr> in
           if \<not> py_truthy users then (None, pop_conv uid (emit uid (Reply No_users_found) w1))
           else
             (case py_iter users of
                Inl x \<Rightarrow> (Some x, w1)
              | Inr us \<Rightarrow>
                  (case list_comp (username_is name) us of
                     Inl x \<Rightarrow> (Some x, w1)
                   | Inr ms \<Rightarrow>
                       if ms = [] then
                         (None, pop_conv uid (emit uid (Reply (User_not_found name)) w1))
                       else if length ms > 1 then
                         (None, emit uid (Reply (Found_many ms name))
                            (put_conv uid
                               (c\<lparr>remove_username := Some name, matching_users := Some ms,
                                  state := awaiting_remove_choice\<rparr>) w1))
                       else
                         (None, emit uid (Reply (Found_user (ms ! 0)))
                            (put_conv uid
                               (c\<lparr>remove_user := Some (ms ! 0),
                                  state := confirm_remove_single\<rparr>) w1))))))"

text \<open>The branch of the state \<^verbatim>\<open>awaiting_remove_choice\<close>. The state is set before the
  prompt reads \<^verbatim>\<open>remove_username\<close>; \<^verbatim>\<open>int(choice)\<close> is called when \<^verbatim>\<open>isdigit\<close> holds, and
  what it raises ends the handler.\<close>

definition remove_choice_step ::
  "pylib \<Rightarrow> int \<Rightarrow> string \<Rightarrow> conv \<Rightarrow> world \<Rightarrow> exn option \<times> world" where
  "remove_choice_step lib uid message_text c w =
     (let choice = lib_lower lib message_text in
      if choice = ''all'' then
        (let w1 = put_conv uid (c\<lparr>state := confirm_remove_all\<rparr>) w in
         case remove_username c of
           None \<Rightarrow> (Some KeyError, w1)
         | Some name \<Rightarrow> (None, emit uid (Reply (Confirm_remove_all name)) w1))
      else if lib_isdigit lib choice then
        (case lib_int lib choice of
           Inl x \<Rightarrow> (Some x, w)
         | Inr i \<Rightarrow>
             (let idx = i - 1 in
              case matching_users c of
                None \<Rightarrow> (Some KeyError, w)
              | Some ms \<Rightarrow>
                  if 0 \<le> idx \<and> idx < int (length ms) then
                    (None, emit uid (Reply (Selected_user (ms ! nat idx)))
                       (put_conv uid
                          (c\<lparr>remove_user := Some (ms ! nat idx),
                             state := confirm_remove_single\<rparr>) w))
                  else (None, emit uid (Reply Invalid_choice) w)))
      else (None, emit uid (Reply Invalid_input) w))"

text \<open>In the state \<^verbatim>\<open>awaiting_expiration\<close> only the ValueError of \<^verbatim>\<open>strptime\<close> is
  caught.\<close>

definition handle_message :: "pylib \<Rightarrow> int \<Rightarrow> string \<Rightarrow> world \<Rightarrow> exn option \<times> world" where
  "handle_message lib uid txt w =
     (let message_text = lib_strip lib txt in
      case user_states w uid of
        None \<Rightarrow> (None, emit uid (Reply Use_buttons) w)
      | Some c \<Rightarrow>
          if state c = awaiting_device_id then
            (None, emit uid (Reply Enter_username)
               (put_conv uid (c\<lparr>device_id := Some message_text, state := awaiting_username\<rparr>) w))
          else if state c = awaiting_username then
            (None, emit uid (Reply Enter_password)
               (put_conv uid (c\<lparr>username := Some message_text, state := awaiting_password\<rparr>) w))
          else if state c = awaiting_password then
            (None, emit uid (Reply Enter_expiration)
               (put_conv uid (c\<lparr>password := Some message_text, state := awaiting_expiration\<rparr>) w))
          else if state c = awaiting_expiration then
            (let expires = (if message_text \<noteq> [] then message_text else DEFAULT_DATE) in
             case lib_strptime lib expires of
               Inr d \<Rightarrow>
                 (None, emit uid (Reply Allow_offline)
                    (put_conv uid (c\<lparr>expiresAt := Some expires, state := awaiting_offline\<rparr>) w))
             | Inl ValueError \<Rightarrow> (None, emit uid (Reply Invalid_date) w)
             | Inl x \<Rightarrow> (Some x, w))
          else if state c = awaiting_remove_username then
            remove_username_step lib uid message_text c w
          else if state c = awaiting_remove_choice then
            remove_choice_step lib uid message_text c w
          else (None, w))"

subsection \<open>\<^verbatim>\<open>handle_offline_callback\<close>\<close>

datatype offline_button = cb_offline_yes | cb_offline_no

text \<open>The condition of the duplicate check; \<^verbatim>\<open>and\<close> does not evaluate its second operand
  when the first is false.\<close>

definition is_duplicate_of :: "conv \<Rightarrow> pyval \<Rightarrow> exn + bool" where
  "is_duplicate_of c u =
     (case py_get u ''username'' of
        Inl e \<Rightarrow> Inl e
      | Inr v \<Rightarrow>
          (case username c of
             None \<Rightarrow> Inl KeyError
           | Some un \<Rightarrow>
               if \<not> py_eq v (PStr un) then Inr False
               else
                 (case py_get u ''password'' of
                    Inl e \<Rightarrow> Inl e
                  | Inr v2 \<Rightarrow>
                      (case password c of
                         None \<Rightarrow> Inl KeyError
                       | Some pw \<Rightarrow> Inr (py_eq v2 (PStr pw))))))"

text \<open>The dict literal of the new record; the fields are read in the order of the source.\<close>

definition new_user :: "conv \<Rightarrow> bool \<Rightarrow> exn + pyval" where
  "new_user c allow =
     (case device_id c of
        None \<Rightarrow> Inl KeyError
      | Some i \<Rightarrow>
          (case username c of
             None \<Rightarrow> Inl KeyError
           | Some un \<Rightarrow>
               (case password c of
                  None \<Rightarrow> Inl KeyError
                | Some pw \<Rightarrow>
                    (case expiresAt c of
                       None \<Rightarrow> Inl KeyError
                     | Some ex \<Rightarrow>
                         Inr (PDict [(''id'', PStr i), (''username'', PStr un),
                                     (''password'', PStr pw), (''expiresAt'', PStr ex),
                                     (''allowOffline'', PBool allow)])))))"

text \<open>\<^verbatim>\<open>users.append(x)\<close>: only a list has the method.\<close>

fun py_append :: "pyval \<Rightarrow> pyval \<Rightarrow> exn + pyval" where
  "py_append (PList xs) x = Inr (PList (xs @ [x]))"
| "py_append _ x = Inl AttributeError"

text \<open>The body of the \<^verbatim>\<open>try\<close>.\<close>

definition offline_try :: "pylib \<Rightarrow> int \<Rightarrow> bool \<Rightarrow> conv \<Rightarrow> world \<Rightarrow> exn option \<times> world" where
  "offline_try lib uid allow c w =
     (case load_users lib (remote w) of
        (Inl x, e) \<Rightarrow> (Some x, w\<lparr>remote := e\<rparr>)
      | (Inr users, e) \<Rightarrow>
          (let w1 = w\<lparr>remote := e\<rparr> in
           case py_iter users of
             Inl x \<Rightarrow> (Some x, w1)
           | Inr us \<Rightarrow>
               (case py_any (is_duplicate_of c) us of
                  Inl x \<Rightarrow> (Some x, w1)
                | Inr duplicate \<Rightarrow>
                    if duplicate then
                      (None, emit uid (Edit Already_exists)
                         (put_conv uid (c\<lparr>allowOffline := Some allow, state := confirm_duplicate\<rparr>) w1))
                    else
                      (case new_user c allow of
                         Inl x \<Rightarrow> (Some x, w1)
                       | Inr nu \<Rightarrow>
                           (case py_append users nu of
                              Inl x \<Rightarrow> (Some x, w1)
                            | Inr users' \<Rightarrow>
                                (case save_users lib users' (remote w1) of
                                   (Inl x, e2) \<Rightarrow> (Some x, w1\<lparr>remote := e2\<rparr>)
                                 | (Inr ok, e2) \<Rightarrow>
                                     if ok then
                                       (case py_len users' of
                                          Inl x \<Rightarrow> (Some x, w1\<lparr>remote := e2\<rparr>)
                                        | Inr n \<Rightarrow>
                                            (None, pop_conv uid
                                               (emit uid (Edit (Creation_success nu n))
                                                  (w1\<lparr>remote := e2\<rparr>))))
                                     else
                                       (None, pop_conv uid
                                          (emit uid (Edit Failed_to_save_user)
                                             (w1\<lparr>remote := e2\<rparr>)))))))))"

definition handle_offline_callback :: "pylib \<Rightarrow> int \<Rightarrow> offline_button \<Rightarrow> world \<Rightarrow> world" where
  "handle_offline_callback lib uid button w =
     (let w0 = emit uid Answer w in
      case user_states w0 uid of
        None \<Rightarrow> w0
      | Some c \<Rightarrow>
          if state c \<noteq> awaiting_offline then w0
          else
            (let allow = (button = cb_offline_yes) in
             case offline_try lib uid allow c w0 of
               (None, w1) \<Rightarrow> w1
             | (Some x, w1) \<Rightarrow> pop_conv uid (emit uid (Edit (Error_message x)) w1)))"

subsection \<open>\<^verbatim>\<open>handle_confirm_callback\<close>\<close>

datatype confirm_button = cb_confirm_remove | cb_confirm_remove_all | cb_add_anyway | cb_menu

definition confirm_remove_step :: "pylib \<Rightarrow> int \<Rightarrow> conv \<Rightarrow> world \<Rightarrow> exn option \<times> world" where
  "confirm_remove_step lib uid c w =
     (case remove_user c of
        None \<Rightarrow> (Some KeyError, w)
      | Some user_to_remove \<Rightarrow>
          (case load_users lib (remote w) of
             (Inl x, e) \<Rightarrow> (Some x, w\<lparr>remote := e\<rparr>)
           | (Inr users, e) \<Rightarrow>
               (case py_iter users of
                  Inl x \<Rightarrow> (Some x, w\<lparr>remote := e\<rparr>)
                | Inr us \<Rightarrow>
                    (case save_users lib (PList (filter (\<lambda>u. \<not> py_eq u user_to_remove) us)) e of
                       (Inl x, e2) \<Rightarrow> (Some x, w\<lparr>remote := e2\<rparr>)
                     | (Inr ok, e2) \<Rightarrow>
                         (None, pop_conv uid
                            (emit uid (Edit (if ok then User_removed else Failed_to_remove_user))
                               (w\<lparr>remote := e2\<rparr>)))))))"

definition confirm_remove_all_step :: "pylib \<Rightarrow> int \<Rightarrow> conv \<Rightarrow> world \<Rightarrow> exn option \<times> world" where
  "confirm_remove_all_step lib uid c w =
     (case remove_username c of
        None \<Rightarrow> (Some KeyError, w)
      | Some name \<Rightarrow>
          (case load_users lib (remote w) of
             (Inl x, e) \<Rightarrow> (Some x, w\<lparr>remote := e\<rparr>)
           | (Inr users, e) \<Rightarrow>
               (case py_iter users of
                  Inl x \<Rightarrow> (Some x, w\<lparr>remote := e\<rparr>)
                | Inr us \<Rightarrow>
                    (case list_comp (username_is_not name) us of
                       Inl x \<Rightarrow> (Some x, w\<lparr>remote := e\<rparr>)
                     | Inr kept \<Rightarrow>
                         (case save_users lib (PList kept) e of
                            (Inl x, e2) \<Rightarrow> (Some x, w\<lparr>remote := e2\<rparr>)
                          | (Inr ok, e2) \<Rightarrow>
                              (None, pop_conv uid
                                 (emit uid
                                    (Edit (if ok then All_removed name else Failed_to_remove_users))
                                    (w\<lparr>remote := e2\<rparr>))))))))"

text \<open>\<^verbatim>\<open>add_anyway\<close>: the method \<^verbatim>\<open>append\<close> is looked up on what was loaded, then the
  dict of the new record is built from the five collected fields.\<close>

definition add_anyway_step :: "pylib \<Rightarrow> int \<Rightarrow> conv \<Rightarrow> world \<Rightarrow> exn option \<times> world" where
  "add_anyway_step lib uid c w =
     (case load_users lib (remote w) of
        (Inl x, e) \<Rightarrow> (Some x, w\<lparr>remote := e\<rparr>)
      | (Inr users, e) \<Rightarrow>
          (let w1 = w\<lparr>remote := e\<rparr> in
           case users of
             PList xs \<Rightarrow>
               (case allowOffline c of
                  None \<Rightarrow> (Some KeyError, w1)
                | Some allow \<Rightarrow>
                    (case new_user c allow of
                       Inl x \<Rightarrow> (Some x, w1)
                     | Inr nu \<Rightarrow>
                         (case save_users lib (PList (xs @ [nu])) e of
                            (Inl x, e2) \<Rightarrow> (Some x, w1\<lparr>remote := e2\<rparr>)
                          | (Inr ok, e2) \<Rightarrow>
                              (None, pop_conv uid
                                 (emit uid
                                    (Edit (if ok then Created_successfully nu else Failed_to_save))
                                    (w1\<lparr>remote := e2\<rparr>))))))
           | _ \<Rightarrow> (Some AttributeError, w1)))"

definition handle_confirm_callback :: "pylib \<Rightarrow> int \<Rightarrow> confirm_button \<Rightarrow> world \<Rightarrow> exn option \<times> world" where
  "handle_confirm_callback lib uid button w =
     (let w0 = emit uid Answer w in
      case button of
        cb_confirm_remove \<Rightarrow>
          (case user_states w0 uid of
             None \<Rightarrow> (None, w0)
           | Some c \<Rightarrow>
               if state c = confirm_remove_single then confirm_remove_step lib uid c w0 else (None, w0))
      | cb_confirm_remove_all \<Rightarrow>
          (case user_states w0 uid of
             None \<Rightarrow> (None, w0)
           | Some c \<Rightarrow>
               if state c = confirm_remove_all then confirm_remove_all_step lib uid c w0 else (None, w0))
      | cb_add_anyway \<Rightarrow>
          (case user_states w0 uid of
             None \<Rightarrow> (None, w0)
           | Some c \<Rightarrow>
               if state c = confirm_duplicate then add_anyway_step lib uid c w0 else (None, w0))
      | cb_menu \<Rightarrow>
          (let w1 = emit uid (Edit Welcome) w0 in
           (None, if user_states w1 uid \<noteq> None then pop_conv uid w1 else w1)))"

section \<open>Notions used in the statements\<close>

text \<open>A value with a length: a string, a list or a dict.\<close>

definition has_len :: "pyval \<Rightarrow> bool" where
  "has_len v = (case v of PStr s \<Rightarrow> True | PList xs \<Rightarrow> True | PDict kvs \<Rightarrow> True | _ \<Rightarrow> False)"

text \<open>The store will answer the metadata request with status 200 and a JSON object whose
  \<^verbatim>\<open>sha\<close> entry is the string \<open>tok\<close>.\<close>

definition serves_sha :: "pylib \<Rightarrow> env \<Rightarrow> string \<Rightarrow> bool" where
  "serves_sha lib e tok =
     (\<exists>meta rest kvs. responses e = Response 200 meta # rest \<and>
        lib_loads lib meta = Inr (PDict kvs) \<and> map_of kvs ''sha'' = Some (PStr tok))"

text \<open>The store will answer the request after the next one, which for \<^verbatim>\<open>save_users\<close> is
  the update, with status 200 or 201.\<close>

definition put_accepted :: "env \<Rightarrow> bool" where
  "put_accepted e =
     (case tl (responses e) of
        Response status body # rs \<Rightarrow> status = 200 \<or> status = 201
      | _ \<Rightarrow> False)"

text \<open>The document \<^verbatim>\<open>{"users": null}\<close>.\<close>

definition users_null :: string where
  "users_null = ''{'' @ [dq] @ ''users'' @ [dq] @ '': null}''"

text \<open>The document \<^verbatim>\<open>[{"username": "a"}]\<close>.\<close>

definition one_record :: string where
  "one_record = ''[{'' @ [dq] @ ''username'' @ [dq] @ '': '' @ [dq] @ ''a'' @ [dq] @ ''}]''"

text \<open>The metadata \<^verbatim>\<open>{"sha": "abc"}\<close>.\<close>

definition sha_abc :: string where
  "sha_abc = ''{'' @ [dq] @ ''sha'' @ [dq] @ '': '' @ [dq] @ ''abc'' @ [dq] @ ''}''"

text \<open>Operator 7 has entered a device id, a username and a password; the store gives no answer.\<close>

definition world0 :: world where
  "world0 = \<lparr>user_states = Map.empty(7 \<mapsto> (new_conv awaiting_expiration)\<lparr>device_id := Some ''d'',
      username := Some ''u'', password := Some ''p''\<rparr>),
     remote = \<lparr>responses = [], requests = [], now = []\<rparr>, outbox = []\<rparr>"


text \<open>Operator 7 has chosen to remove all records of the username \<^verbatim>\<open>a\<close>; the document
  is now \<^verbatim>\<open>[3]\<close>.\<close>

definition world1 :: world where
  "world1 = \<lparr>user_states = Map.empty(7 \<mapsto> (new_conv confirm_remove_all)\<lparr>remove_username := Some ''a'',
      matching_users := Some [PDict [(''username'', PStr ''a'')], PDict [(''username'', PStr ''a'')]]\<rparr>),
     remote = \<lparr>responses = [Response 200 ''[3]''], requests = [], now = []\<rparr>, outbox = []\<rparr>"

text \<open>A record of the collection is a dict; the records of a username are those whose
  \<^verbatim>\<open>username\<close> entry is that string.\<close>

definition is_dict :: "pyval \<Rightarrow> bool" where
  "is_dict v = (case v of PDict kvs \<Rightarrow> True | _ \<Rightarrow> False)"

definition matching :: "string \<Rightarrow> pyval list \<Rightarrow> pyval list" where
  "matching name us = filter (\<lambda>u. py_get u ''username'' = Inr (PStr name)) us"

definition not_matching :: "string \<Rightarrow> pyval list \<Rightarrow> pyval list" where
  "not_matching name us = filter (\<lambda>u. py_get u ''username'' \<noteq> Inr (PStr name)) us"


text \<open>The document of three records, two of them of the username \<^verbatim>\<open>a\<close>, and worlds in
  which operator 7 removes by username.\<close>

definition rec_a1 :: pyval where
  "rec_a1 = PDict [(''id'', PStr ''d1''), (''username'', PStr ''a'')]"

definition rec_a2 :: pyval where
  "rec_a2 = PDict [(''id'', PStr ''d2''), (''username'', PStr ''a'')]"

definition rec_b :: pyval where
  "rec_b = PDict [(''id'', PStr ''d3''), (''username'', PStr ''b'')]"

definition three_records :: string where
  "three_records = json_dumps (PList [rec_a1, rec_b, rec_a2])"

definition remote3 :: env where
  "remote3 = \<lparr>responses = [Response 200 three_records, Response 200 sha_abc, Response 200 []],
     requests = [], now = []\<rparr>"

definition world_remove :: world where
  "world_remove = \<lparr>user_states = Map.empty(7 \<mapsto> new_conv awaiting_remove_username),
     remote = remote3, outbox = []\<rparr>"

definition world_choice :: world where
  "world_choice = \<lparr>user_states = Map.empty(7 \<mapsto> (new_conv awaiting_remove_choice)
       \<lparr>remove_username := Some ''a'', matching_users := Some [rec_a1, rec_a2]\<rparr>),
     remote = remote3, outbox = []\<rparr>"

definition world_all :: world where
  "world_all = \<lparr>user_states = Map.empty(7 \<mapsto> (new_conv confirm_remove_all)
       \<lparr>remove_username := Some ''a'', matching_users := Some [rec_a1, rec_a2]\<rparr>),
     remote = remote3, outbox = []\<rparr>"

text \<open>A record as the bot writes it, the document holding it alone, and worlds in which
  operator 7 is about to remove it and about to add its username and password again.\<close>

definition rec_up :: pyval where
  "rec_up = PDict [(''id'', PStr ''d1''), (''username'', PStr ''a''), (''password'', PStr ''p''),
     (''expiresAt'', PStr ''2025-12-12''), (''allowOffline'', PBool False)]"

definition single_record :: string where
  "single_record = json_dumps (PList [rec_up])"

definition remote1 :: env where
  "remote1 = \<lparr>responses = [Response 200 single_record, Response 200 single_record,
       Response 200 sha_abc, Response 200 []],
     requests = [], now = []\<rparr>"


definition conv_dup :: conv where
  "conv_dup = (new_conv awaiting_offline)\<lparr>device_id := Some ''d2'', username := Some ''a'',
     password := Some ''p'', expiresAt := Some ''2026-01-31''\<rparr>"

definition world_dup :: world where
  "world_dup = \<lparr>user_states = Map.empty(7 \<mapsto> conv_dup), remote = remote1, outbox = []\<rparr>"



text \<open>A value the program can serialize and read back: no float, and no dict that holds a
  key twice.\<close>

fun json_plain :: "pyval \<Rightarrow> bool" where
  "json_plain (PFloat f) = False"
| "json_plain (PList xs) = list_all json_plain xs"
| "json_plain (PDict kvs) =
     (distinct (map fst kvs) \<and> list_all (\<lambda>kv. json_plain (snd kv)) kvs)"
| "json_plain _ = True"

text \<open>What may follow a number in a document: not a digit, a point or an exponent.\<close>

definition number_ends :: "string \<Rightarrow> bool" where
  "number_ends s =
     (case s of
        [] \<Rightarrow> True
      | c # cs \<Rightarrow> \<not> is_digit c \<and> c \<noteq> CHR ''.'' \<and> c \<noteq> CHR ''e'' \<and> c \<noteq> CHR ''E'')"

text \<open>A store that accepts an update and then serves the document of one record.\<close>

definition remote_save :: env where
  "remote_save = \<lparr>responses = [Response 200 sha_abc, Response 200 [], Response 200 single_record],
     requests = [], now = []\<rparr>"

section \<open>Properties of the gateway\<close>

lemma send_request_requests:
  "requests (snd (send_request rq e)) = requests e @ [rq]"
  by (simp add: send_request_def split: list.splits)

lemma load_users_returns: "\<exists>v e'. load_users lib e = (Inr v, e')"
  by (auto simp: load_users_def split: prod.splits sum.splits exn.splits)

lemma load_users_no_answer:
  "responses e = [] \<Longrightarrow> fst (load_users lib e) = Inr (PList [])"
  by (simp add: load_users_def load_users_try_def requests_get_def send_request_def)

lemma load_users_network_error:
  "responses e = NetworkError # rs \<Longrightarrow> fst (load_users lib e) = Inr (PList [])"
  by (simp add: load_users_def load_users_try_def requests_get_def send_request_def)

lemma load_users_other_status:
  "responses e = Response status body # rs \<Longrightarrow> status \<noteq> 200 \<Longrightarrow>
   fst (load_users lib e) = Inr (PList [])"
  by (simp add: load_users_def load_users_try_def requests_get_def send_request_def)

lemma load_users_parsed:
  "responses e = Response 200 body # rs \<Longrightarrow>
   fst (load_users lib e) =
     (case load_users_parse lib body of Inl x \<Rightarrow> Inr (PList []) | Inr v \<Rightarrow> Inr v)"
  by (simp add: load_users_def load_users_try_def requests_get_def send_request_def
      split: sum.splits exn.splits)

lemma load_users_env:
  "snd (load_users lib e) = snd (send_request (GET Accept_raw) e)"
  by (simp add: load_users_def load_users_try_def requests_get_def
      split: prod.splits http_reply.splits sum.splits exn.splits)

lemma load_users_unparsed:
  "responses e = Response 200 body # rs \<Longrightarrow> lib_loads lib body = Inl x \<Longrightarrow>
   fst (load_users lib e) = Inr (PList [])"
  by (simp add: load_users_parsed load_users_parse_def)

text \<open>
  Claim C1. Whatever the library does, \<^verbatim>\<open>load_users\<close> always returns a value and never
  raises; it returns the empty list when the request gets no answer or a transport error,
  when the status is not 200 (404 included), and when \<^verbatim>\<open>json.loads\<close> raises on the text of
  a 200 answer.
\<close>

theorem load_users_fail_soft:
  "(\<exists>v e'. load_users lib e = (Inr v, e')) \<and>
   (responses e = [] \<or> (\<exists>rs. responses e = NetworkError # rs)
      \<longrightarrow> fst (load_users lib e) = Inr (PList [])) \<and>
   (\<forall>status body rs. responses e = Response status body # rs \<and>
        (status \<noteq> 200 \<or> (\<exists>x. lib_loads lib body = Inl x))
      \<longrightarrow> fst (load_users lib e) = Inr (PList []))"
proof -
  have "\<exists>v e'. load_users lib e = (Inr v, e')"
    by (rule load_users_returns)
  moreover have "responses e = [] \<or> (\<exists>rs. responses e = NetworkError # rs)
      \<longrightarrow> fst (load_users lib e) = Inr (PList [])"
    using load_users_no_answer load_users_network_error by blast
  moreover have "\<forall>status body rs. responses e = Response status body # rs \<and>
        (status \<noteq> 200 \<or> (\<exists>x. lib_loads lib body = Inl x))
      \<longrightarrow> fst (load_users lib e) = Inr (PList [])"
    using load_users_other_status load_users_unparsed by blast
  ultimately show ?thesis by blast
qed

text \<open>No answer, a transport error, a 404 and the malformed text \<^verbatim>\<open>[1,\<close>.\<close>

theorem load_users_fail_soft_witness:
  "fst (load_users stdlib \<lparr>responses = [], requests = [], now = []\<rparr>) = Inr (PList []) \<and>
   fst (load_users stdlib \<lparr>responses = [NetworkError], requests = [], now = []\<rparr>)
     = Inr (PList []) \<and>
   fst (load_users stdlib \<lparr>responses = [Response 404 ''Not Found''], requests = [], now = []\<rparr>)
     = Inr (PList []) \<and>
   fst (load_users stdlib \<lparr>responses = [Response 200 ''[1,''], requests = [], now = []\<rparr>)
     = Inr (PList [])"
proof -
  have p: "lib_loads stdlib ''[1,'' = Inl JSONDecodeError" by code_simp
  show ?thesis
    using load_users_fail_soft [of stdlib "\<lparr>responses = [], requests = [], now = []\<rparr>"]
      load_users_fail_soft [of stdlib "\<lparr>responses = [NetworkError], requests = [], now = []\<rparr>"]
      load_users_fail_soft [of stdlib
        "\<lparr>responses = [Response 404 ''Not Found''], requests = [], now = []\<rparr>"]
      load_users_fail_soft [of stdlib
        "\<lparr>responses = [Response 200 ''[1,''], requests = [], now = []\<rparr>"]
      p
    by simp
qed

subsection \<open>The shape of the document\<close>

text \<open>
  Claim C6 says that an object with a \<^verbatim>\<open>users\<close> entry always yields the value of the entry.
  For \<^verbatim>\<open>{"users": null}\<close> the log line takes \<^verbatim>\<open>len(None)\<close>, the TypeError reaches
  \<^verbatim>\<open>except Exception\<close>, and the result is the empty list, not \<^verbatim>\<open>None\<close>.
\<close>

theorem load_users_field_counterexample:
  "lib_loads stdlib users_null = Inr (PDict [(''users'', PNone)]) \<and>
   fst (load_users stdlib \<lparr>responses = [Response 200 users_null], requests = [], now = []\<rparr>)
     = Inr (PList []) \<and>
   fst (load_users stdlib \<lparr>responses = [Response 200 users_null], requests = [], now = []\<rparr>)
     \<noteq> Inr PNone"
  by code_simp

text \<open>
  Claim C6, amended. For a 200 answer on whose text \<^verbatim>\<open>json.loads\<close> returns a value (it
  raises on text that is not JSON, and on a document beyond the limits of the interpreter):
  when the value is a list, it is returned as it is; when it is a dict with the key
  \<^verbatim>\<open>users\<close>, the entry is returned when it is a string, a list or a dict, and the empty list
  when it is \<^verbatim>\<open>None\<close>, a boolean or a number; a dict without the key and every other value
  give the empty list.
\<close>

theorem load_users_shapes:
  assumes "responses e = Response 200 body # rs" and "lib_loads lib body = Inr data"
  shows "(\<forall>xs. data = PList xs \<longrightarrow> fst (load_users lib e) = Inr (PList xs)) \<and>
    (\<forall>kvs v. data = PDict kvs \<and> map_of kvs ''users'' = Some v \<longrightarrow>
        fst (load_users lib e) = Inr (if has_len v then v else PList [])) \<and>
    (\<forall>kvs. data = PDict kvs \<and> map_of kvs ''users'' = None \<longrightarrow>
        fst (load_users lib e) = Inr (PList [])) \<and>
    ((\<forall>xs. data \<noteq> PList xs) \<and> (\<forall>kvs. data \<noteq> PDict kvs) \<longrightarrow>
        fst (load_users lib e) = Inr (PList []))"
proof (intro conjI allI impI)
  fix xs assume "data = PList xs"
  then show "fst (load_users lib e) = Inr (PList xs)"
    using assms by (simp add: load_users_parsed load_users_parse_def)
next
  fix kvs v assume "data = PDict kvs \<and> map_of kvs ''users'' = Some v"
  then show "fst (load_users lib e) = Inr (if has_len v then v else PList [])"
    using assms by (cases v) (simp_all add: load_users_parsed load_users_parse_def has_len_def)
next
  fix kvs assume "data = PDict kvs \<and> map_of kvs ''users'' = None"
  then show "fst (load_users lib e) = Inr (PList [])"
    using assms by (simp add: load_users_parsed load_users_parse_def)
next
  assume "(\<forall>xs. data \<noteq> PList xs) \<and> (\<forall>kvs. data \<noteq> PDict kvs)"
  then show "fst (load_users lib e) = Inr (PList [])"
    using assms by (cases data) (simp_all add: load_users_parsed load_users_parse_def)
qed

text \<open>The array of one record, and the object \<^verbatim>\<open>{"users": null}\<close>.\<close>

theorem load_users_shapes_witness:
  "fst (load_users stdlib \<lparr>responses = [Response 200 one_record], requests = [], now = []\<rparr>)
     = Inr (PList [PDict [(''username'', PStr ''a'')]]) \<and>
   fst (load_users stdlib \<lparr>responses = [Response 200 users_null], requests = [], now = []\<rparr>)
     = Inr (PList [])"
proof -
  have p1: "lib_loads stdlib one_record = Inr (PList [PDict [(''username'', PStr ''a'')]])"
    by code_simp
  have p2: "lib_loads stdlib users_null = Inr (PDict [(''users'', PNone)])"
    by code_simp
  have r1: "responses \<lparr>responses = [Response 200 one_record], requests = [], now = []\<rparr>
      = Response 200 one_record # []"
    by simp
  have r2: "responses \<lparr>responses = [Response 200 users_null], requests = [], now = []\<rparr>
      = Response 200 users_null # []"
    by simp
  show ?thesis
    using load_users_shapes [OF r1 p1] load_users_shapes [OF r2 p2]
    by (simp add: has_len_def)
qed

subsection \<open>\<^verbatim>\<open>save_users\<close>\<close>

lemma save_users_returns: "\<exists>b e'. save_users lib users e = (Inr b, e')"
  by (auto simp: save_users_def split: prod.splits sum.splits exn.splits)

lemma save_users_no_answer:
  "responses e = [] \<Longrightarrow> fst (save_users lib users e) = Inr False"
  by (simp add: save_users_def save_users_try_def requests_get_def send_request_def)

lemma save_users_network_error:
  "responses e = NetworkError # rs \<Longrightarrow> fst (save_users lib users e) = Inr False"
  by (simp add: save_users_def save_users_try_def requests_get_def send_request_def)

lemma save_users_other_status:
  "responses e = Response status body # rs \<Longrightarrow> status \<noteq> 200 \<Longrightarrow>
   fst (save_users lib users e) = Inr False"
  by (simp add: save_users_def save_users_try_def requests_get_def send_request_def)

text \<open>What the update step answers, by the next answer of the store.\<close>

lemma save_users_put_True:
  "fst (save_users_put lib users tok e) = Inr True \<longleftrightarrow>
   (\<exists>s n status t rs. lib_dumps lib users = Inr s \<and> py_len users = Inr n \<and>
      responses e = Response status t # rs \<and> (status = 200 \<or> status = 201))"
  by (cases "responses e"; cases "hd (responses e)"; cases "py_len users";
      cases "lib_dumps lib users")
     (auto simp: save_users_put_def requests_put_def send_request_def)

lemma save_users_put_requests:
  "fst (save_users_put lib users tok e) = Inr True \<Longrightarrow>
   \<exists>s n. lib_dumps lib users = Inr s \<and> py_len users = Inr n \<and>
     requests (snd (save_users_put lib users tok e)) =
       requests e @ [PUT (make_commit s n tok (now e))]"
  by (cases "responses e"; cases "hd (responses e)"; cases "py_len users";
      cases "lib_dumps lib users")
     (auto simp: save_users_put_def requests_put_def send_request_def)

text \<open>After a 200 answer to the metadata request, \<^verbatim>\<open>save_users\<close> is true only through
  the update step.\<close>

lemma save_users_through_put:
  assumes "responses e = Response 200 body # rest"
    and "save_users lib users e = (Inr True, e')"
  shows "\<exists>tok. save_users_put lib users tok
            (e\<lparr>responses := rest, requests := requests e @ [GET Accept_json]\<rparr>)
           = (Inr True, e')"
  using assms
  by (auto simp: save_users_def save_users_try_def requests_get_def send_request_def
        split: option.splits sum.splits prod.splits exn.splits)

lemma save_users_update_failed:
  assumes "responses e = Response 200 body # rest"
    and "rest = [] \<or> (\<exists>rs. rest = NetworkError # rs) \<or>
           (\<exists>status t rs. rest = Response status t # rs \<and> status \<noteq> 200 \<and> status \<noteq> 201)"
  shows "fst (save_users lib users e) = Inr False"
proof -
  obtain b e' where r: "save_users lib users e = (Inr b, e')"
    using save_users_returns by blast
  have "\<not> b"
  proof
    assume b
    with r have "save_users lib users e = (Inr True, e')" by simp
    from save_users_through_put [OF assms(1) this] obtain tok where
      "save_users_put lib users tok
          (e\<lparr>responses := rest, requests := requests e @ [GET Accept_json]\<rparr>)
         = (Inr True, e')"
      by blast
    then have "fst (save_users_put lib users tok
        (e\<lparr>responses := rest, requests := requests e @ [GET Accept_json]\<rparr>)) = Inr True"
      by simp
    then show False
      using assms(2) by (auto simp: save_users_put_True)
  qed
  with r show ?thesis by simp
qed

lemma save_users_true:
  assumes "fst (save_users lib users e) = Inr True"
  shows "\<exists>body status t rs cd. responses e = Response 200 body # Response status t # rs \<and>
     (status = 200 \<or> status = 201) \<and> lib_dumps lib users = Inr (content cd) \<and>
     requests (snd (save_users lib users e)) = requests e @ [GET Accept_json, PUT cd]"
proof -
  obtain e' where s: "save_users lib users e = (Inr True, e')"
    using assms by (cases "save_users lib users e") simp
  from assms obtain body rest where r: "responses e = Response 200 body # rest"
    using save_users_no_answer[of e lib users] save_users_network_error[of e _ lib users]
      save_users_other_status[of e _ _ _ lib users]
    by (cases "responses e"; cases "hd (responses e)") (auto split: if_splits)
  let ?e1 = "e\<lparr>responses := rest, requests := requests e @ [GET Accept_json]\<rparr>"
  from save_users_through_put [OF r s] obtain tok where
    p: "save_users_put lib users tok ?e1 = (Inr True, e')" by blast
  then have t: "fst (save_users_put lib users tok ?e1) = Inr True" by simp
  from t obtain status t rs where
    "rest = Response status t # rs" "status = 200 \<or> status = 201"
    by (auto simp: save_users_put_True)
  moreover from save_users_put_requests [OF t] p obtain sd n where
    "lib_dumps lib users = Inr sd"
    "requests e' = requests e @ [GET Accept_json, PUT (make_commit sd n tok (now e))]"
    by auto
  moreover have "content (make_commit sd n tok (now e)) = sd" for sd n
    by (simp add: make_commit_def)
  ultimately show ?thesis using r s by fastforce
qed

text \<open>With a store that serves the metadata and a collection that serializes, the update
  is sent, with the serialized collection as its content, and its answer decides.\<close>

lemma save_users_sends:
  assumes "serves_sha lib e tok" and "lib_dumps lib (PList xs) = Inr sd"
  shows "requests (snd (save_users lib (PList xs) e)) =
      requests e @ [GET Accept_json, PUT (make_commit sd (length xs) (PStr tok) (now e))]"
    and "fst (save_users lib (PList xs) e) = Inr (put_accepted e)"
proof -
  from assms(1) obtain meta rest kvs where
    m: "responses e = Response 200 meta # rest" "lib_loads lib meta = Inr (PDict kvs)"
      "map_of kvs ''sha'' = Some (PStr tok)"
    unfolding serves_sha_def by blast
  show "requests (snd (save_users lib (PList xs) e)) =
      requests e @ [GET Accept_json, PUT (make_commit sd (length xs) (PStr tok) (now e))]"
    using m assms(2)
    by (cases rest; cases "hd rest")
       (auto simp: save_users_def save_users_try_def save_users_put_def requests_get_def
          requests_put_def send_request_def)
  show "fst (save_users lib (PList xs) e) = Inr (put_accepted e)"
    using m assms(2)
    by (cases rest; cases "hd rest")
       (auto simp: save_users_def save_users_try_def save_users_put_def requests_get_def
          requests_put_def send_request_def put_accepted_def)
qed

text \<open>
  Claim C2. Whatever the library does, \<^verbatim>\<open>save_users\<close> always returns a boolean and never
  raises. It returns false when the metadata request gets no answer, a transport error or a
  status other than 200 (404 included), and when the update request gets no answer, a
  transport error or a status other than 200 and 201. When it returns true, the metadata
  request was answered with 200, the update request with 200 or 201, and the update carried
  the serialized collection.
\<close>

theorem save_users_boolean:
  "(\<exists>b e'. save_users lib users e = (Inr b, e')) \<and>
   (responses e = [] \<or> (\<exists>rs. responses e = NetworkError # rs)
      \<longrightarrow> fst (save_users lib users e) = Inr False) \<and>
   (\<forall>status body rs. responses e = Response status body # rs \<and> status \<noteq> 200
      \<longrightarrow> fst (save_users lib users e) = Inr False) \<and>
   (\<forall>body rest. responses e = Response 200 body # rest \<and>
        (rest = [] \<or> (\<exists>rs. rest = NetworkError # rs) \<or>
         (\<exists>status t rs. rest = Response status t # rs \<and> status \<noteq> 200 \<and> status \<noteq> 201))
      \<longrightarrow> fst (save_users lib users e) = Inr False) \<and>
   (fst (save_users lib users e) = Inr True \<longrightarrow>
      (\<exists>body status t rs cd.
         responses e = Response 200 body # Response status t # rs \<and>
         (status = 200 \<or> status = 201) \<and> lib_dumps lib users = Inr (content cd) \<and>
         requests (snd (save_users lib users e)) = requests e @ [GET Accept_json, PUT cd]))"
proof -
  have "\<exists>b e'. save_users lib users e = (Inr b, e')"
    by (rule save_users_returns)
  moreover have "responses e = [] \<or> (\<exists>rs. responses e = NetworkError # rs)
      \<longrightarrow> fst (save_users lib users e) = Inr False"
    using save_users_no_answer save_users_network_error by blast
  moreover have "\<forall>status body rs. responses e = Response status body # rs \<and> status \<noteq> 200
      \<longrightarrow> fst (save_users lib users e) = Inr False"
    using save_users_other_status by blast
  moreover have "\<forall>body rest. responses e = Response 200 body # rest \<and>
        (rest = [] \<or> (\<exists>rs. rest = NetworkError # rs) \<or>
         (\<exists>status t rs. rest = Response status t # rs \<and> status \<noteq> 200 \<and> status \<noteq> 201))
      \<longrightarrow> fst (save_users lib users e) = Inr False"
    using save_users_update_failed by blast
  moreover have "fst (save_users lib users e) = Inr True \<longrightarrow>
      (\<exists>body status t rs cd.
         responses e = Response 200 body # Response status t # rs \<and>
         (status = 200 \<or> status = 201) \<and> lib_dumps lib users = Inr (content cd) \<and>
         requests (snd (save_users lib users e)) = requests e @ [GET Accept_json, PUT cd])"
    using save_users_true by blast
  ultimately show ?thesis by blast
qed

text \<open>A missing document, a server error, a rejected update, a transport error at each of
  the two requests, and a successful save of the empty collection.\<close>

theorem save_users_boolean_witness:
  "fst (save_users stdlib (PList []) \<lparr>responses = [Response 404 []], requests = [], now = []\<rparr>)
     = Inr False \<and>
   fst (save_users stdlib (PList []) \<lparr>responses = [Response 500 []], requests = [], now = []\<rparr>)
     = Inr False \<and>
   fst (save_users stdlib (PList [])
      \<lparr>responses = [Response 200 sha_abc, Response 409 []], requests = [], now = []\<rparr>)
     = Inr False \<and>
   fst (save_users stdlib (PList []) \<lparr>responses = [NetworkError], requests = [], now = []\<rparr>)
     = Inr False \<and>
   fst (save_users stdlib (PList [])
      \<lparr>responses = [Response 200 sha_abc, NetworkError], requests = [], now = []\<rparr>)
     = Inr False \<and>
   (\<exists>cd. content cd = json_dumps (PList []) \<and>
      requests (snd (save_users stdlib (PList [])
        \<lparr>responses = [Response 200 sha_abc, Response 200 []], requests = [], now = []\<rparr>))
      = [GET Accept_json, PUT cd])"
proof -
  have ok: "fst (save_users stdlib (PList [])
      \<lparr>responses = [Response 200 sha_abc, Response 200 []], requests = [], now = []\<rparr>)
     = Inr True"
    by code_simp
  have d: "lib_dumps stdlib (PList []) = Inr (json_dumps (PList []))"
    by code_simp
  show ?thesis
    using save_users_boolean [of stdlib "PList []"
        "\<lparr>responses = [Response 404 []], requests = [], now = []\<rparr>"]
      save_users_boolean [of stdlib "PList []"
        "\<lparr>responses = [Response 500 []], requests = [], now = []\<rparr>"]
      save_users_boolean [of stdlib "PList []"
        "\<lparr>responses = [Response 200 sha_abc, Response 409 []], requests = [], now = []\<rparr>"]
      save_users_boolean [of stdlib "PList []"
        "\<lparr>responses = [NetworkError], requests = [], now = []\<rparr>"]
      save_users_boolean [of stdlib "PList []"
        "\<lparr>responses = [Response 200 sha_abc, NetworkError], requests = [], now = []\<rparr>"]
      save_users_boolean [of stdlib "PList []"
        "\<lparr>responses = [Response 200 sha_abc, Response 200 []], requests = [], now = []\<rparr>"]
      ok d
    by auto
qed

section \<open>Properties of the conversation engine\<close>

lemma emit_fields [simp]:
  "user_states (emit uid ev w) = user_states w"
  "remote (emit uid ev w) = remote w"
  "outbox (emit uid ev w) = outbox w @ [(uid, ev)]"
  by (simp_all add: emit_def)

lemma put_conv_fields [simp]:
  "user_states (put_conv uid c w) = (user_states w)(uid \<mapsto> c)"
  "remote (put_conv uid c w) = remote w"
  "outbox (put_conv uid c w) = outbox w"
  by (simp_all add: put_conv_def)

lemma pop_conv_fields [simp]:
  "user_states (pop_conv uid w) = (user_states w)(uid := None)"
  "remote (pop_conv uid w) = remote w"
  "outbox (pop_conv uid w) = outbox w"
  by (simp_all add: pop_conv_def)

text \<open>
  Claim C7. In the state \<^verbatim>\<open>awaiting_expiration\<close>, for every input \<open>t\<close> and whatever
  \<^verbatim>\<open>strip\<close> and \<^verbatim>\<open>strptime\<close> do on it: when the stripped input is empty, \<^verbatim>\<open>strptime\<close> is
  called on the default date 2025-12-12, and as it accepts it, that date is stored and the
  state becomes \<^verbatim>\<open>awaiting_offline\<close>; when \<^verbatim>\<open>strptime\<close> raises ValueError on the stripped
  input, the operator gets the prompt to try again and neither the state table (the state
  and the collected fields stay) nor the remote store changes; when \<^verbatim>\<open>strptime\<close> returns a
  date, the stripped input is stored as \<^verbatim>\<open>expiresAt\<close> and the state becomes
  \<^verbatim>\<open>awaiting_offline\<close>.
\<close>

theorem expiration_step:
  assumes "user_states w uid = Some c" and "state c = awaiting_expiration"
  shows
    "(lib_strip lib t = [] \<and> (\<exists>d. lib_strptime lib ''2025-12-12'' = Inr d) \<longrightarrow>
        handle_message lib uid t w =
          (None, emit uid (Reply Allow_offline)
             (put_conv uid (c\<lparr>expiresAt := Some ''2025-12-12'', state := awaiting_offline\<rparr>) w))) \<and>
     (lib_strip lib t \<noteq> [] \<and> lib_strptime lib (lib_strip lib t) = Inl ValueError \<longrightarrow>
        handle_message lib uid t w = (None, emit uid (Reply Invalid_date) w) \<and>
        user_states (snd (handle_message lib uid t w)) = user_states w \<and>
        user_states (snd (handle_message lib uid t w)) uid = Some c \<and>
        remote (snd (handle_message lib uid t w)) = remote w) \<and>
     (lib_strip lib t \<noteq> [] \<and> (\<exists>d. lib_strptime lib (lib_strip lib t) = Inr d) \<longrightarrow>
        handle_message lib uid t w =
          (None, emit uid (Reply Allow_offline)
             (put_conv uid (c\<lparr>expiresAt := Some (lib_strip lib t), state := awaiting_offline\<rparr>) w)))"
  using assms
  by (auto simp: handle_message_def Let_def DEFAULT_DATE_def)

text \<open>With the library of the model: an empty input, the input \<^verbatim>\<open>soon\<close> and a date.\<close>

theorem expiration_step_witness:
  "user_states (snd (handle_message stdlib 7 ''  '' world0)) 7 =
     Some ((new_conv awaiting_expiration)\<lparr>device_id := Some ''d'', username := Some ''u'',
       password := Some ''p'', expiresAt := Some ''2025-12-12'', state := awaiting_offline\<rparr>) \<and>
   handle_message stdlib 7 ''soon'' world0 = (None, emit 7 (Reply Invalid_date) world0) \<and>
   user_states (snd (handle_message stdlib 7 '' 2026-01-31'' world0)) 7 =
     Some ((new_conv awaiting_expiration)\<lparr>device_id := Some ''d'', username := Some ''u'',
       password := Some ''p'', expiresAt := Some ''2026-01-31'', state := awaiting_offline\<rparr>)"
proof -
  have u: "user_states world0 7 = Some ((new_conv awaiting_expiration)\<lparr>device_id := Some ''d'',
      username := Some ''u'', password := Some ''p''\<rparr>)"
    by (simp add: world0_def)
  have s: "state ((new_conv awaiting_expiration)\<lparr>device_id := Some ''d'',
      username := Some ''u'', password := Some ''p''\<rparr>) = awaiting_expiration"
    by (simp add: new_conv_def)
  have e1: "lib_strip stdlib ''  '' = []" by code_simp
  have e0: "lib_strptime stdlib ''2025-12-12'' = Inr (2025, 12, 12)" by code_simp
  have e2: "lib_strip stdlib ''soon'' \<noteq> [] \<and>
      lib_strptime stdlib (lib_strip stdlib ''soon'') = Inl ValueError"
    by code_simp
  have e3: "lib_strip stdlib '' 2026-01-31'' = ''2026-01-31''" by code_simp
  have e4: "lib_strptime stdlib ''2026-01-31'' = Inr (2026, 1, 31)" by code_simp
  show ?thesis
    using expiration_step [OF u s, of stdlib "''  ''"]
      expiration_step [OF u s, of stdlib "''soon''"]
      expiration_step [OF u s, of stdlib "'' 2026-01-31''"] e0 e1 e2 e3 e4
    by simp
qed

text \<open>
  Claim C10. A confirmation button pressed by an operator who has no entry in
  \<^verbatim>\<open>user_states\<close>, or whose entry is in another state than the one the button belongs to,
  only answers the callback query: the state table and the remote store stay as they are,
  so no request is sent.
\<close>

theorem stale_confirmation_noop:
  "((\<forall>c. user_states w uid = Some c \<longrightarrow> state c \<noteq> awaiting_offline) \<longrightarrow>
      handle_offline_callback lib uid cb_offline_yes w = emit uid Answer w \<and>
      handle_offline_callback lib uid cb_offline_no w = emit uid Answer w) \<and>
   ((\<forall>c. user_states w uid = Some c \<longrightarrow> state c \<noteq> confirm_remove_single) \<longrightarrow>
      handle_confirm_callback lib uid cb_confirm_remove w = (None, emit uid Answer w)) \<and>
   ((\<forall>c. user_states w uid = Some c \<longrightarrow> state c \<noteq> confirm_remove_all) \<longrightarrow>
      handle_confirm_callback lib uid cb_confirm_remove_all w = (None, emit uid Answer w)) \<and>
   ((\<forall>c. user_states w uid = Some c \<longrightarrow> state c \<noteq> confirm_duplicate) \<longrightarrow>
      handle_confirm_callback lib uid cb_add_anyway w = (None, emit uid Answer w)) \<and>
   user_states (emit uid Answer w) = user_states w \<and>
   remote (emit uid Answer w) = remote w"
  by (auto simp: handle_offline_callback_def handle_confirm_callback_def Let_def
        split: option.splits)

text \<open>Operator 8 has no entry; operator 7 is in the state \<^verbatim>\<open>awaiting_expiration\<close>.\<close>

theorem stale_confirmation_noop_witness:
  "handle_offline_callback stdlib 8 cb_offline_yes world0 = emit 8 Answer world0 \<and>
   handle_offline_callback stdlib 7 cb_offline_no world0 = emit 7 Answer world0 \<and>
   handle_confirm_callback stdlib 8 cb_confirm_remove world0 = (None, emit 8 Answer world0) \<and>
   handle_confirm_callback stdlib 7 cb_confirm_remove_all world0 = (None, emit 7 Answer world0) \<and>
   handle_confirm_callback stdlib 7 cb_add_anyway world0 = (None, emit 7 Answer world0) \<and>
   remote (emit 7 Answer world0) = remote world0"
proof -
  have a: "\<forall>c. user_states world0 8 = Some c \<longrightarrow> state c \<noteq> l" for l
    by (simp add: world0_def)
  have b: "\<forall>c. user_states world0 7 = Some c \<longrightarrow> state c \<noteq> l" if "l \<noteq> awaiting_expiration" for l
    using that by (auto simp: world0_def new_conv_def)
  show ?thesis
    using stale_confirmation_noop [of world0 8 stdlib] stale_confirmation_noop [of world0 7 stdlib]
      a b [of awaiting_offline] b [of confirm_remove_all] b [of confirm_duplicate]
    by simp
qed

lemma parse_three: "lib_loads stdlib ''[3]'' = Inr (PList [PInt 3])"
  by code_simp

text \<open>
  Claim C9 says that every completed operation removes the entry of the operator, also
  when the commit fails with an internal error. \<^verbatim>\<open>handle_offline_callback\<close> does so in its
  \<^verbatim>\<open>except\<close> clause; \<^verbatim>\<open>handle_confirm_callback\<close> has none. Here operator 7 confirms the
  removal of all records of a username while the document is \<^verbatim>\<open>[3]\<close>: the comprehension
  raises AttributeError on \<^verbatim>\<open>3\<close>, the handler ends with it, and the entry is still there.
\<close>

theorem confirm_error_keeps_state:
  "handle_confirm_callback stdlib 7 cb_confirm_remove_all world1 =
     (Some AttributeError,
      emit 7 Answer (world1\<lparr>remote := \<lparr>responses = [], requests = [GET Accept_raw], now = []\<rparr>\<rparr>)) \<and>
   user_states (snd (handle_confirm_callback stdlib 7 cb_confirm_remove_all world1)) 7
     = user_states world1 7 \<and>
   user_states world1 7 \<noteq> None"
  by (simp add: world1_def handle_confirm_callback_def confirm_remove_all_step_def Let_def
      load_users_def load_users_try_def load_users_parse_def requests_get_def send_request_def
      parse_three username_is_not_def emit_def new_conv_def)
subsection \<open>Comparisons\<close>

lemma py_eq_PStr [simp]: "py_eq v (PStr s) = (v = PStr s)"
  by (cases v) auto

lemma username_is_dict:
  "is_dict u \<Longrightarrow> username_is name u = Inr (py_get u ''username'' = Inr (PStr name))"
  by (cases u) (auto simp: is_dict_def username_is_def split: option.splits)

lemma username_is_not_dict:
  "is_dict u \<Longrightarrow> username_is_not name u = Inr (py_get u ''username'' \<noteq> Inr (PStr name))"
  by (cases u) (auto simp: is_dict_def username_is_not_def split: option.splits)

lemma list_comp_total:
  "\<forall>x\<in>set xs. p x = Inr (q x) \<Longrightarrow> list_comp p xs = Inr (filter q xs)"
  by (induction xs) auto

lemma list_comp_matching:
  "list_all is_dict us \<Longrightarrow> list_comp (username_is name) us = Inr (matching name us)"
  unfolding matching_def
  by (rule list_comp_total) (simp add: list_all_iff username_is_dict)

lemma list_comp_not_matching:
  "list_all is_dict us \<Longrightarrow> list_comp (username_is_not name) us = Inr (not_matching name us)"
  unfolding not_matching_def
  by (rule list_comp_total) (simp add: list_all_iff username_is_not_dict)

lemma py_any_total:
  "\<forall>x\<in>set xs. p x = Inr (q x) \<Longrightarrow> py_any p xs = Inr (\<exists>x\<in>set xs. q x)"
  by (induction xs) auto

lemma is_duplicate_of_dict:
  assumes "is_dict u" "username c = Some un" "password c = Some pw"
  shows "is_duplicate_of c u =
    Inr (py_get u ''username'' = Inr (PStr un) \<and> py_get u ''password'' = Inr (PStr pw))"
  using assms
  by (cases u) (auto simp: is_dict_def is_duplicate_of_def split: option.splits)

lemma py_any_duplicate:
  assumes "list_all is_dict us" "username c = Some un" "password c = Some pw"
  shows "py_any (is_duplicate_of c) us =
    Inr (\<exists>u\<in>set us. py_get u ''username'' = Inr (PStr un) \<and> py_get u ''password'' = Inr (PStr pw))"
  by (rule py_any_total) (use assms in \<open>simp add: list_all_iff is_duplicate_of_dict\<close>)




subsection \<open>Decimal numerals\<close>

lemma is_digit_digit_char: "n < 10 \<Longrightarrow> is_digit (digit_char n)"
  by (simp add: is_digit_def digit_char_def)

lemma digit_val_digit_char: "n < 10 \<Longrightarrow> digit_val (digit_char n) = n"
  by (simp add: digit_val_def digit_char_def)

lemma show_nat_digits: "list_all is_digit (show_nat n)"
  by (induction n rule: show_nat.induct)
     (subst show_nat.simps, simp add: is_digit_digit_char)

lemma show_nat_not_Nil: "show_nat n \<noteq> []"
  by (subst show_nat.simps) simp

lemma py_isdigit_show_nat: "py_isdigit (show_nat n)"
  by (simp add: py_isdigit_def show_nat_digits show_nat_not_Nil)

lemma int_of_digits_snoc: "int_of_digits (s @ [c]) = 10 * int_of_digits s + digit_val c"
  by (simp add: int_of_digits_def)

lemma int_of_digits_show_nat: "int_of_digits (show_nat n) = n"
proof (induction n rule: show_nat.induct)
  case (1 n)
  show ?case
  proof (cases "n < 10")
    case True
    then show ?thesis
      by (subst show_nat.simps) (simp add: int_of_digits_def digit_val_digit_char)
  next
    case False
    with 1 have "int_of_digits (show_nat (n div 10)) = n div 10" by simp
    with False show ?thesis
      by (subst show_nat.simps) (simp add: int_of_digits_snoc digit_val_digit_char)
  qed
qed

lemma show_nat_not_all: "show_nat n \<noteq> ''all''"
proof
  assume "show_nat n = ''all''"
  then have "list_all is_digit ''all''" using show_nat_digits [of n] by simp
  then show False by (simp add: is_digit_def)
qed


subsection \<open>Removal\<close>

lemma load_users_requests:
  "load_users lib e = (r, e') \<Longrightarrow> requests e' = requests e @ [GET Accept_raw]"
  using load_users_env [of lib e] by (simp add: send_request_requests)

lemma load_users_now:
  "load_users lib e = (r, e') \<Longrightarrow> now e' = now e"
  using load_users_env [of lib e] by (auto simp: send_request_def split: list.splits)

lemma remove_username_step_records:
  assumes "load_users lib (remote w) = (Inr (PList us), e1)" and "list_all is_dict us"
  shows "remove_username_step lib uid name c w =
    (let ms = matching name us; w1 = w\<lparr>remote := e1\<rparr> in
     if ms = [] then
       (None, pop_conv uid (emit uid (Reply (if us = [] then No_users_found else User_not_found name)) w1))
     else if length ms > 1 then
       (None, emit uid (Reply (Found_many ms name))
          (put_conv uid (c\<lparr>remove_username := Some name, matching_users := Some ms,
             state := awaiting_remove_choice\<rparr>) w1))
     else
       (None, emit uid (Reply (Found_user (ms ! 0)))
          (put_conv uid (c\<lparr>remove_user := Some (ms ! 0), state := confirm_remove_single\<rparr>) w1)))"
  using assms
  by (auto simp: remove_username_step_def Let_def list_comp_matching matching_def)

lemma remove_choice_index:
  assumes "matching_users c = Some ms" and "lib_lower lib t \<noteq> ''all''"
    and "lib_isdigit lib (lib_lower lib t)" and "lib_int lib (lib_lower lib t) = Inr (int k)"
    and "1 \<le> k" "k \<le> length ms"
  shows "remove_choice_step lib uid t c w =
    (None, emit uid (Reply (Selected_user (ms ! (k - 1))))
       (put_conv uid (c\<lparr>remove_user := Some (ms ! (k - 1)), state := confirm_remove_single\<rparr>) w))"
proof -
  have "nat (int k - 1) = k - 1" by simp
  then show ?thesis
    using assms
    by (simp add: remove_choice_step_def Let_def)
qed

lemma remove_choice_all:
  assumes "remove_username c = Some name" and "lib_lower lib t = ''all''"
  shows "remove_choice_step lib uid t c w =
    (None, emit uid (Reply (Confirm_remove_all name)) (put_conv uid (c\<lparr>state := confirm_remove_all\<rparr>) w))"
  using assms by (simp add: remove_choice_step_def Let_def)

lemma confirm_remove_all_records:
  assumes "remove_username c = Some name"
    and "load_users lib (remote w) = (Inr (PList us), e1)" and "list_all is_dict us"
  shows "confirm_remove_all_step lib uid c w =
    (None, pop_conv uid
       (emit uid (Edit (if fst (save_users lib (PList (not_matching name us)) e1) = Inr True
                        then All_removed name else Failed_to_remove_users))
          (w\<lparr>remote := snd (save_users lib (PList (not_matching name us)) e1)\<rparr>)))"
proof -
  obtain b e2 where s: "save_users lib (PList (not_matching name us)) e1 = (Inr b, e2)"
    using save_users_returns by blast
  show ?thesis
    using assms s
    by (simp add: confirm_remove_all_step_def list_comp_not_matching)
qed


text \<open>The two confirmations in full, for a store that serves the metadata and a kept
  collection that serializes: the requests sent and the messages.\<close>

lemma confirm_remove_all_sends:
  assumes "user_states w uid = Some c" and "state c = confirm_remove_all"
    and "remove_username c = Some name"
    and "load_users lib (remote w) = (Inr (PList us), e1)" and "list_all is_dict us"
    and "serves_sha lib e1 tok" and "lib_dumps lib (PList (not_matching name us)) = Inr sd"
  shows "handle_confirm_callback lib uid cb_confirm_remove_all w =
    (None, \<lparr>user_states = (user_states w)(uid := None),
       remote = snd (save_users lib (PList (not_matching name us)) e1),
       outbox = outbox w @ [(uid, Answer),
         (uid, Edit (if put_accepted e1 then All_removed name else Failed_to_remove_users))]\<rparr>)"
    and "requests (snd (save_users lib (PList (not_matching name us)) e1)) =
      requests (remote w) @ [GET Accept_raw, GET Accept_json,
        PUT (make_commit sd (length (not_matching name us)) (PStr tok) (now (remote w)))]"
proof -
  have l: "load_users lib (remote (emit uid Answer w)) = (Inr (PList us), e1)"
    using assms(4) by simp
  show "handle_confirm_callback lib uid cb_confirm_remove_all w =
    (None, \<lparr>user_states = (user_states w)(uid := None),
       remote = snd (save_users lib (PList (not_matching name us)) e1),
       outbox = outbox w @ [(uid, Answer),
         (uid, Edit (if put_accepted e1 then All_removed name else Failed_to_remove_users))]\<rparr>)"
    using confirm_remove_all_records [OF assms(3) l assms(5)] assms(1,2)
      save_users_sends(2) [OF assms(6,7)]
    by (simp add: handle_confirm_callback_def Let_def emit_def pop_conv_def)
  show "requests (snd (save_users lib (PList (not_matching name us)) e1)) =
      requests (remote w) @ [GET Accept_raw, GET Accept_json,
        PUT (make_commit sd (length (not_matching name us)) (PStr tok) (now (remote w)))]"
    using save_users_sends(1) [OF assms(6,7)] load_users_requests [OF assms(4)]
      load_users_now [OF assms(4)]
    by simp
qed


text \<open>The library of the model reads the decimal numeral of every \<open>k\<close> as \<open>k\<close>.\<close>

lemma stdlib_reads_numerals:
  "show_nat k \<noteq> ''all'' \<and> lib_isdigit stdlib (show_nat k) \<and>
   lib_int stdlib (show_nat k) = Inr (int k)"
  by (simp add: stdlib_def py_isdigit_show_nat int_of_digits_show_nat show_nat_not_all)

text \<open>
  Claim C4. In the state \<^verbatim>\<open>awaiting_remove_username\<close>, for a loaded collection of records
  and the stripped input as username: without a record of that username the entry of the
  operator is removed; with exactly one, it becomes \<^verbatim>\<open>confirm_remove_single\<close> with that
  record as \<^verbatim>\<open>remove_user\<close>; with more, it becomes \<^verbatim>\<open>awaiting_remove_choice\<close> with the
  matches. There an input whose stripped and lowered text is not \<^verbatim>\<open>all\<close>, satisfies
  \<^verbatim>\<open>isdigit\<close> and is read by \<^verbatim>\<open>int\<close> as \<open>k\<close>, for \<open>k\<close> from 1 to the number of matches,
  selects the \<open>k\<close>-th match, and an input whose stripped and lowered text is \<^verbatim>\<open>all\<close> moves
  to \<^verbatim>\<open>confirm_remove_all\<close>. Confirming \<^verbatim>\<open>confirm_remove_all\<close> calls \<^verbatim>\<open>save_users\<close> on the
  loaded collection without the records of the username and removes the entry; when the
  store serves the metadata and the kept records serialize, the requests sent are the load,
  the metadata request and the update whose content is the serialization of exactly the
  records of the loaded collection that are not of that username, in their order, and the
  operator is told that all were removed when the update is accepted and that the removal
  failed otherwise.
\<close>

theorem remove_by_username:
  "(\<forall>c us e1.
      user_states w uid = Some c \<and> state c = awaiting_remove_username \<and>
      load_users lib (remote w) = (Inr (PList us), e1) \<and> list_all is_dict us \<longrightarrow>
      (let ms = matching (lib_strip lib t) us; w' = snd (handle_message lib uid t w) in
       fst (handle_message lib uid t w) = None \<and> remote w' = e1 \<and>
       (ms = [] \<longrightarrow> user_states w' = (user_states w)(uid := None)) \<and>
       (length ms = 1 \<longrightarrow>
          user_states w' =
            (user_states w)(uid \<mapsto> c\<lparr>remove_user := Some (ms ! 0), state := confirm_remove_single\<rparr>)) \<and>
       (length ms > 1 \<longrightarrow>
          user_states w' =
            (user_states w)(uid \<mapsto> c\<lparr>remove_username := Some (lib_strip lib t),
               matching_users := Some ms, state := awaiting_remove_choice\<rparr>)))) \<and>
   (\<forall>c ms name.
      user_states w uid = Some c \<and> state c = awaiting_remove_choice \<and>
      matching_users c = Some ms \<and> remove_username c = Some name \<longrightarrow>
      (\<forall>k. lib_lower lib (lib_strip lib t) \<noteq> ''all'' \<and>
           lib_isdigit lib (lib_lower lib (lib_strip lib t)) \<and>
           lib_int lib (lib_lower lib (lib_strip lib t)) = Inr (int k) \<and>
           1 \<le> k \<and> k \<le> length ms \<longrightarrow>
         fst (handle_message lib uid t w) = None \<and>
         remote (snd (handle_message lib uid t w)) = remote w \<and>
         user_states (snd (handle_message lib uid t w)) =
           (user_states w)(uid \<mapsto> c\<lparr>remove_user := Some (ms ! (k - 1)),
              state := confirm_remove_single\<rparr>)) \<and>
      (lib_lower lib (lib_strip lib t) = ''all'' \<longrightarrow>
         fst (handle_message lib uid t w) = None \<and>
         remote (snd (handle_message lib uid t w)) = remote w \<and>
         user_states (snd (handle_message lib uid t w)) =
           (user_states w)(uid \<mapsto> c\<lparr>state := confirm_remove_all\<rparr>))) \<and>
   (\<forall>c name us e1.
      user_states w uid = Some c \<and> state c = confirm_remove_all \<and>
      remove_username c = Some name \<and>
      load_users lib (remote w) = (Inr (PList us), e1) \<and> list_all is_dict us \<longrightarrow>
      fst (handle_confirm_callback lib uid cb_confirm_remove_all w) = None \<and>
      user_states (snd (handle_confirm_callback lib uid cb_confirm_remove_all w)) =
        (user_states w)(uid := None) \<and>
      remote (snd (handle_confirm_callback lib uid cb_confirm_remove_all w)) =
        snd (save_users lib (PList (not_matching name us)) e1) \<and>
      (\<forall>tok sd. serves_sha lib e1 tok \<and>
           lib_dumps lib (PList (filter (\<lambda>u. py_get u ''username'' \<noteq> Inr (PStr name)) us))
             = Inr sd \<longrightarrow>
         requests (remote (snd (handle_confirm_callback lib uid cb_confirm_remove_all w))) =
           requests (remote w) @ [GET Accept_raw, GET Accept_json,
             PUT (make_commit sd
                    (length (filter (\<lambda>u. py_get u ''username'' \<noteq> Inr (PStr name)) us))
                    (PStr tok) (now (remote w)))] \<and>
         outbox (snd (handle_confirm_callback lib uid cb_confirm_remove_all w)) =
           outbox w @ [(uid, Answer),
             (uid, Edit (if put_accepted e1 then All_removed name
                         else Failed_to_remove_users))]))"
proof -
  have 1: "let ms = matching (lib_strip lib t) us; w' = snd (handle_message lib uid t w) in
       fst (handle_message lib uid t w) = None \<and> remote w' = e1 \<and>
       (ms = [] \<longrightarrow> user_states w' = (user_states w)(uid := None)) \<and>
       (length ms = 1 \<longrightarrow>
          user_states w' =
            (user_states w)(uid \<mapsto> c\<lparr>remove_user := Some (ms ! 0), state := confirm_remove_single\<rparr>)) \<and>
       (length ms > 1 \<longrightarrow>
          user_states w' =
            (user_states w)(uid \<mapsto> c\<lparr>remove_username := Some (lib_strip lib t),
               matching_users := Some ms, state := awaiting_remove_choice\<rparr>))"
    if "user_states w uid = Some c" "state c = awaiting_remove_username"
      "load_users lib (remote w) = (Inr (PList us), e1)" "list_all is_dict us" for c us e1
    using that
    by (simp add: handle_message_def Let_def remove_username_step_records)
  have 2: "fst (handle_message lib uid t w) = None \<and>
         remote (snd (handle_message lib uid t w)) = remote w \<and>
         user_states (snd (handle_message lib uid t w)) =
           (user_states w)(uid \<mapsto> c\<lparr>remove_user := Some (ms ! (k - 1)),
              state := confirm_remove_single\<rparr>)"
    if "user_states w uid = Some c" "state c = awaiting_remove_choice"
      "matching_users c = Some ms" "lib_lower lib (lib_strip lib t) \<noteq> ''all''"
      "lib_isdigit lib (lib_lower lib (lib_strip lib t))"
      "lib_int lib (lib_lower lib (lib_strip lib t)) = Inr (int k)" "1 \<le> k" "k \<le> length ms"
    for c ms k
    using that
    by (simp add: handle_message_def Let_def remove_choice_index)
  have 3: "fst (handle_message lib uid t w) = None \<and>
         remote (snd (handle_message lib uid t w)) = remote w \<and>
         user_states (snd (handle_message lib uid t w)) =
           (user_states w)(uid \<mapsto> c\<lparr>state := confirm_remove_all\<rparr>)"
    if "user_states w uid = Some c" "state c = awaiting_remove_choice"
      "remove_username c = Some name" "lib_lower lib (lib_strip lib t) = ''all''"
    for c name
    using that
    by (simp add: handle_message_def Let_def remove_choice_all)
  have 4: "fst (handle_confirm_callback lib uid cb_confirm_remove_all w) = None \<and>
      user_states (snd (handle_confirm_callback lib uid cb_confirm_remove_all w)) =
        (user_states w)(uid := None) \<and>
      remote (snd (handle_confirm_callback lib uid cb_confirm_remove_all w)) =
        snd (save_users lib (PList (not_matching name us)) e1)"
    if "user_states w uid = Some c" "state c = confirm_remove_all"
      "remove_username c = Some name"
      "load_users lib (remote w) = (Inr (PList us), e1)" "list_all is_dict us"
    for c name us e1
  proof -
    have "load_users lib (remote (emit uid Answer w)) = (Inr (PList us), e1)"
      using that(4) by simp
    from confirm_remove_all_records [OF that(3) this that(5)] that(1,2) show ?thesis
      by (simp add: handle_confirm_callback_def Let_def)
  qed
  have 5: "requests (remote (snd (handle_confirm_callback lib uid cb_confirm_remove_all w))) =
           requests (remote w) @ [GET Accept_raw, GET Accept_json,
             PUT (make_commit sd
                    (length (filter (\<lambda>u. py_get u ''username'' \<noteq> Inr (PStr name)) us))
                    (PStr tok) (now (remote w)))] \<and>
         outbox (snd (handle_confirm_callback lib uid cb_confirm_remove_all w)) =
           outbox w @ [(uid, Answer),
             (uid, Edit (if put_accepted e1 then All_removed name
                         else Failed_to_remove_users))]"
    if "user_states w uid = Some c" "state c = confirm_remove_all"
      "remove_username c = Some name"
      "load_users lib (remote w) = (Inr (PList us), e1)" "list_all is_dict us"
      "serves_sha lib e1 tok"
      "lib_dumps lib (PList (filter (\<lambda>u. py_get u ''username'' \<noteq> Inr (PStr name)) us)) = Inr sd"
    for c name us e1 tok sd
  proof -
    have d: "lib_dumps lib (PList (not_matching name us)) = Inr sd"
      using that(7) by (simp add: not_matching_def)
    show ?thesis
      using confirm_remove_all_sends [OF that(1-6) d]
      by (simp add: not_matching_def)
  qed
  show ?thesis
    using 1 2 3 4 5 by blast
qed

text \<open>With the library of the model, operator 7 and the document of three records: the
  usernames \<^verbatim>\<open>zz\<close>, \<^verbatim>\<open>b\<close> and \<^verbatim>\<open>a\<close>; then the choices \<^verbatim>\<open>2\<close> and \<^verbatim>\<open>ALL\<close>; then the
  confirmation, whose update carries the record of \<^verbatim>\<open>b\<close> alone.\<close>

theorem remove_by_username_witness:
  "user_states (snd (handle_message stdlib 7 ''zz'' world_remove)) 7 = None \<and>
   user_states (snd (handle_message stdlib 7 '' b'' world_remove)) 7 =
     Some ((new_conv awaiting_remove_username)\<lparr>remove_user := Some rec_b,
        state := confirm_remove_single\<rparr>) \<and>
   user_states (snd (handle_message stdlib 7 ''a'' world_remove)) 7 =
     Some ((new_conv awaiting_remove_username)\<lparr>remove_username := Some ''a'',
        matching_users := Some [rec_a1, rec_a2], state := awaiting_remove_choice\<rparr>) \<and>
   user_states (snd (handle_message stdlib 7 ''2'' world_choice)) 7 =
     Some ((new_conv awaiting_remove_choice)\<lparr>remove_username := Some ''a'',
        matching_users := Some [rec_a1, rec_a2], remove_user := Some rec_a2,
        state := confirm_remove_single\<rparr>) \<and>
   user_states (snd (handle_message stdlib 7 ''ALL'' world_choice)) 7 =
     Some ((new_conv awaiting_remove_choice)\<lparr>remove_username := Some ''a'',
        matching_users := Some [rec_a1, rec_a2], state := confirm_remove_all\<rparr>) \<and>
   user_states (snd (handle_confirm_callback stdlib 7 cb_confirm_remove_all world_all)) 7 = None \<and>
   requests (remote (snd (handle_confirm_callback stdlib 7 cb_confirm_remove_all world_all))) =
     [GET Accept_raw, GET Accept_json,
      PUT (make_commit (json_dumps (PList [rec_b])) 1 (PStr ''abc'') [])] \<and>
   outbox (snd (handle_confirm_callback stdlib 7 cb_confirm_remove_all world_all)) =
     [(7, Answer), (7, Edit (All_removed ''a''))]"
proof -
  let ?e1 = "\<lparr>responses = [Response 200 sha_abc, Response 200 []], requests = [GET Accept_raw],
        now = []\<rparr>"
  let ?c = "new_conv awaiting_remove_username"
  let ?d = "(new_conv awaiting_remove_choice)\<lparr>remove_username := Some ''a'',
        matching_users := Some [rec_a1, rec_a2]\<rparr>"
  let ?f = "(new_conv confirm_remove_all)\<lparr>remove_username := Some ''a'',
        matching_users := Some [rec_a1, rec_a2]\<rparr>"
  have l: "load_users stdlib remote3 = (Inr (PList [rec_a1, rec_b, rec_a2]), ?e1)"
    by code_simp
  have d: "list_all is_dict [rec_a1, rec_b, rec_a2]"
    by code_simp
  have r: "user_states world_remove 7 = Some ?c" "state ?c = awaiting_remove_username"
    "remote world_remove = remote3"
    by (simp_all add: world_remove_def new_conv_def)
  have ch: "user_states world_choice 7 = Some ?d" "state ?d = awaiting_remove_choice"
    "matching_users ?d = Some [rec_a1, rec_a2]" "remove_username ?d = Some ''a''"
    by (simp_all add: world_choice_def new_conv_def)
  have al: "user_states world_all 7 = Some ?f" "state ?f = confirm_remove_all"
    "remove_username ?f = Some ''a''" "remote world_all = remote3"
    "outbox world_all = []"
    by (simp_all add: world_all_def new_conv_def)
  have m: "matching (lib_strip stdlib ''zz'') [rec_a1, rec_b, rec_a2] = []"
    "matching (lib_strip stdlib '' b'') [rec_a1, rec_b, rec_a2] = [rec_b]"
    "matching (lib_strip stdlib ''a'') [rec_a1, rec_b, rec_a2] = [rec_a1, rec_a2]"
    "lib_strip stdlib ''a'' = ''a''"
    "filter (\<lambda>u. py_get u ''username'' \<noteq> Inr (PStr ''a'')) [rec_a1, rec_b, rec_a2] = [rec_b]"
    by code_simp+
  have k: "lib_lower stdlib (lib_strip stdlib ''2'') = ''2''"
    "lib_isdigit stdlib ''2''" "lib_int stdlib ''2'' = Inr (int 2)"
    "lib_lower stdlib (lib_strip stdlib ''ALL'') = ''all''"
    by code_simp+
  have p: "lib_loads stdlib sha_abc = Inr (PDict [(''sha'', PStr ''abc'')])"
    by code_simp
  have sv: "serves_sha stdlib ?e1 ''abc''"
    unfolding serves_sha_def using p by simp
  have ds: "lib_dumps stdlib (PList [rec_b]) = Inr (json_dumps (PList [rec_b]))"
    by code_simp
  have pa: "put_accepted ?e1"
    by (simp add: put_accepted_def)
  have rq: "requests remote3 = []" "now remote3 = []"
    by (simp_all add: remote3_def)
  show ?thesis
    using remove_by_username [of world_remove 7 stdlib "''zz''",
        THEN conjunct1, rule_format, of ?c _ ?e1]
      remove_by_username [of world_remove 7 stdlib "'' b''", THEN conjunct1, rule_format, of ?c _ ?e1]
      remove_by_username [of world_remove 7 stdlib "''a''", THEN conjunct1, rule_format, of ?c _ ?e1]
      remove_by_username [of world_choice 7 stdlib "''2''", THEN conjunct2, THEN conjunct1,
        rule_format, of ?d "[rec_a1, rec_a2]" "''a''", THEN conjunct1, rule_format, of 2]
      remove_by_username [of world_choice 7 stdlib "''ALL''", THEN conjunct2, THEN conjunct1,
        rule_format, of ?d "[rec_a1, rec_a2]" "''a''", THEN conjunct2]
      remove_by_username [of world_all 7 stdlib "[]", THEN conjunct2, THEN conjunct2, rule_format,
        of ?f "''a''" _ ?e1, THEN conjunct2, THEN conjunct2, THEN conjunct2, rule_format,
        where tok = "''abc''" and sd = "json_dumps (PList [rec_b])"]
      remove_by_username [of world_all 7 stdlib "[]", THEN conjunct2, THEN conjunct2, rule_format,
        of ?f "''a''" _ ?e1]
      l d r ch al m k sv ds pa rq
    by (simp add: Let_def)
qed






subsection \<open>Adding\<close>

lemma offline_try_duplicate:
  assumes "username c = Some un" "password c = Some pw"
    and "load_users lib (remote w) = (Inr (PList us), e1)" "list_all is_dict us"
    and "\<exists>u\<in>set us. py_get u ''username'' = Inr (PStr un) \<and> py_get u ''password'' = Inr (PStr pw)"
  shows "offline_try lib uid allow c w =
    (None, emit uid (Edit Already_exists)
       (put_conv uid (c\<lparr>allowOffline := Some allow, state := confirm_duplicate\<rparr>)
          (w\<lparr>remote := e1\<rparr>)))"
  using assms(3,5) py_any_duplicate [OF assms(4,1,2)]
  by (simp add: offline_try_def Let_def)

lemma add_anyway_step_records:
  assumes "new_user c allow = Inr nu" "allowOffline c = Some allow"
    and "load_users lib (remote w) = (Inr (PList us), e1)"
  shows "add_anyway_step lib uid c w =
    (None, pop_conv uid
       (emit uid (Edit (if fst (save_users lib (PList (us @ [nu])) e1) = Inr True
                        then Created_successfully nu else Failed_to_save))
          (w\<lparr>remote := snd (save_users lib (PList (us @ [nu])) e1)\<rparr>)))"
proof -
  obtain b e2 where s: "save_users lib (PList (us @ [nu])) e1 = (Inr b, e2)"
    using save_users_returns by blast
  show ?thesis
    using assms s by (simp add: add_anyway_step_def Let_def)
qed

text \<open>
  Claim C3. When the add flow is complete (the operator presses yes or no in the state
  \<^verbatim>\<open>awaiting_offline\<close>) and a record of the loaded collection has the username and the
  password collected, the entry moves to \<^verbatim>\<open>confirm_duplicate\<close>, the operator is told that
  the user exists, and the only request sent is the GET of the load: nothing is saved.
  Pressing \<^verbatim>\<open>add_anyway\<close> then calls \<^verbatim>\<open>save_users\<close> on the collection loaded at that moment
  with one record appended, which holds the collected device id, username, password,
  expiration date and the offline choice, and removes the entry. When the store serves the
  metadata and that collection serializes, the requests sent are the second load, the
  metadata request and the update whose content is the serialization of the collection
  with the record appended, and the operator is told that the user was created when the
  update is accepted and that the save failed otherwise.
\<close>

theorem duplicate_needs_confirmation:
  assumes "user_states w uid = Some c" and "state c = awaiting_offline"
    and "device_id c = Some i" and "username c = Some un" and "password c = Some pw"
    and "expiresAt c = Some ex"
    and "load_users lib (remote w) = (Inr (PList us), e1)" and "list_all is_dict us"
    and "\<exists>u\<in>set us. py_get u ''username'' = Inr (PStr un) \<and> py_get u ''password'' = Inr (PStr pw)"
    and "load_users lib e1 = (Inr (PList us2), e2)"
  shows
    "(let w1 = handle_offline_callback lib uid b w;
          res = handle_confirm_callback lib uid cb_add_anyway w1;
          nu = PDict [(''id'', PStr i), (''username'', PStr un),
                (''password'', PStr pw), (''expiresAt'', PStr ex),
                (''allowOffline'', PBool (b = cb_offline_yes))]
      in user_states w1 =
           (user_states w)(uid \<mapsto> c\<lparr>allowOffline := Some (b = cb_offline_yes),
              state := confirm_duplicate\<rparr>) \<and>
         remote w1 = e1 \<and> requests e1 = requests (remote w) @ [GET Accept_raw] \<and>
         outbox w1 = outbox w @ [(uid, Answer), (uid, Edit Already_exists)] \<and>
         fst res = None \<and> user_states (snd res) = (user_states w)(uid := None) \<and>
         remote (snd res) = snd (save_users lib (PList (us2 @ [nu])) e2) \<and>
         (\<forall>tok sd. serves_sha lib e2 tok \<and> lib_dumps lib (PList (us2 @ [nu])) = Inr sd \<longrightarrow>
            requests (remote (snd res)) =
              requests (remote w) @ [GET Accept_raw, GET Accept_raw, GET Accept_json,
                PUT (make_commit sd (length us2 + 1) (PStr tok) (now (remote w)))] \<and>
            outbox (snd res) =
              outbox w @ [(uid, Answer), (uid, Edit Already_exists), (uid, Answer),
                (uid, Edit (if put_accepted e2 then Created_successfully nu
                            else Failed_to_save))]))"
proof -
  define w1 where "w1 = handle_offline_callback lib uid b w"
  let ?allow = "b = cb_offline_yes"
  let ?c1 = "c\<lparr>allowOffline := Some ?allow, state := confirm_duplicate\<rparr>"
  let ?nu = "PDict [(''id'', PStr i), (''username'', PStr un),
                (''password'', PStr pw), (''expiresAt'', PStr ex),
                (''allowOffline'', PBool ?allow)]"
  let ?res = "handle_confirm_callback lib uid cb_add_anyway w1"
  have l0: "load_users lib (remote (emit uid Answer w)) = (Inr (PList us), e1)"
    using assms(7) by simp
  have w1: "w1 = emit uid (Edit Already_exists)
       (put_conv uid ?c1 ((emit uid Answer w)\<lparr>remote := e1\<rparr>))"
    using offline_try_duplicate [OF assms(4,5) l0 assms(8,9), of uid ?allow] assms(1,2)
    by (simp add: w1_def handle_offline_callback_def Let_def)
  then have u1: "user_states w1 = (user_states w)(uid \<mapsto> ?c1)" and r1: "remote w1 = e1"
    and o1: "outbox w1 = outbox w @ [(uid, Answer), (uid, Edit Already_exists)]"
    by simp_all
  have q: "requests e1 = requests (remote w) @ [GET Accept_raw]"
    using load_users_requests [OF assms(7)] .
  have q2: "requests e2 = requests (remote w) @ [GET Accept_raw, GET Accept_raw]"
    using load_users_requests [OF assms(10)] q by simp
  have t2: "now e2 = now (remote w)"
    using load_users_now [OF assms(10)] load_users_now [OF assms(7)] by simp
  have n: "new_user ?c1 ?allow = Inr ?nu"
    using assms(3-6) by (simp add: new_user_def)
  have l1: "load_users lib (remote (emit uid Answer w1)) = (Inr (PList us2), e2)"
    using r1 assms(10) by simp
  have a: "allowOffline ?c1 = Some ?allow" by simp
  have h: "?res = add_anyway_step lib uid ?c1 (emit uid Answer w1)"
    using u1 by (simp add: handle_confirm_callback_def Let_def)
  have s: "?res = (None, pop_conv uid
       (emit uid (Edit (if fst (save_users lib (PList (us2 @ [?nu])) e2) = Inr True
                        then Created_successfully ?nu else Failed_to_save))
          ((emit uid Answer w1)\<lparr>remote := snd (save_users lib (PList (us2 @ [?nu])) e2)\<rparr>)))"
    using add_anyway_step_records [OF n a l1, of uid] h by simp
  have f1: "fst ?res = None"
    and f2: "user_states (snd ?res) = (user_states w)(uid := None)"
    and f3: "remote (snd ?res) = snd (save_users lib (PList (us2 @ [?nu])) e2)"
    and f4: "outbox (snd ?res) = outbox w @ [(uid, Answer), (uid, Edit Already_exists),
        (uid, Answer),
        (uid, Edit (if fst (save_users lib (PList (us2 @ [?nu])) e2) = Inr True
                    then Created_successfully ?nu else Failed_to_save))]"
    unfolding s using u1 o1 by simp_all
  have f5: "\<forall>tok sd. serves_sha lib e2 tok \<and> lib_dumps lib (PList (us2 @ [?nu])) = Inr sd \<longrightarrow>
            requests (remote (snd ?res)) =
              requests (remote w) @ [GET Accept_raw, GET Accept_raw, GET Accept_json,
                PUT (make_commit sd (length us2 + 1) (PStr tok) (now (remote w)))] \<and>
            outbox (snd ?res) =
              outbox w @ [(uid, Answer), (uid, Edit Already_exists), (uid, Answer),
                (uid, Edit (if put_accepted e2 then Created_successfully ?nu
                            else Failed_to_save))]"
  proof (intro allI impI)
    fix tok sd
    assume p: "serves_sha lib e2 tok \<and> lib_dumps lib (PList (us2 @ [?nu])) = Inr sd"
    then have p1: "serves_sha lib e2 tok" and p2: "lib_dumps lib (PList (us2 @ [?nu])) = Inr sd"
      by simp_all
    show "requests (remote (snd ?res)) =
              requests (remote w) @ [GET Accept_raw, GET Accept_raw, GET Accept_json,
                PUT (make_commit sd (length us2 + 1) (PStr tok) (now (remote w)))] \<and>
            outbox (snd ?res) =
              outbox w @ [(uid, Answer), (uid, Edit Already_exists), (uid, Answer),
                (uid, Edit (if put_accepted e2 then Created_successfully ?nu
                            else Failed_to_save))]"
      unfolding f3 f4 using save_users_sends [OF p1 p2] q2 t2 by simp
  qed
  show ?thesis
    unfolding Let_def w1_def [symmetric]
    using u1 r1 q o1 f1 f2 f3 f5
    apply -
    apply (intro conjI)
    apply assumption+
    done
qed

text \<open>With the library of the model, operator 7 adds the username and password of the
  stored record again and allows offline access; the update after the confirmation carries
  both records.\<close>

theorem duplicate_needs_confirmation_witness:
  "user_states (handle_offline_callback stdlib 7 cb_offline_yes world_dup) 7 =
     Some (conv_dup\<lparr>allowOffline := Some True, state := confirm_duplicate\<rparr>) \<and>
   requests (remote (handle_offline_callback stdlib 7 cb_offline_yes world_dup)) = [GET Accept_raw] \<and>
   user_states (snd (handle_confirm_callback stdlib 7 cb_add_anyway
       (handle_offline_callback stdlib 7 cb_offline_yes world_dup))) 7 = None \<and>
   requests (remote (snd (handle_confirm_callback stdlib 7 cb_add_anyway
       (handle_offline_callback stdlib 7 cb_offline_yes world_dup)))) =
     [GET Accept_raw, GET Accept_raw, GET Accept_json,
      PUT (make_commit
        (json_dumps (PList [rec_up, PDict [(''id'', PStr ''d2''), (''username'', PStr ''a''),
          (''password'', PStr ''p''), (''expiresAt'', PStr ''2026-01-31''),
          (''allowOffline'', PBool True)]]))
        2 (PStr ''abc'') [])]"
proof -
  let ?e1 = "\<lparr>responses = [Response 200 single_record, Response 200 sha_abc, Response 200 []],
        requests = [GET Accept_raw], now = []\<rparr>"
  let ?e2 = "\<lparr>responses = [Response 200 sha_abc, Response 200 []],
        requests = [GET Accept_raw, GET Accept_raw], now = []\<rparr>"
  let ?nu = "PDict [(''id'', PStr ''d2''), (''username'', PStr ''a''),
          (''password'', PStr ''p''), (''expiresAt'', PStr ''2026-01-31''),
          (''allowOffline'', PBool True)]"
  have u: "user_states world_dup 7 = Some conv_dup"
    by (simp add: world_dup_def)
  have c: "state conv_dup = awaiting_offline" "device_id conv_dup = Some ''d2''"
    "username conv_dup = Some ''a''" "password conv_dup = Some ''p''"
    "expiresAt conv_dup = Some ''2026-01-31''"
    by (simp_all add: conv_dup_def new_conv_def)
  have l1: "load_users stdlib (remote world_dup) = (Inr (PList [rec_up]), ?e1)"
    by code_simp
  have l2: "load_users stdlib ?e1 = (Inr (PList [rec_up]), ?e2)"
    by code_simp
  have d: "list_all is_dict [rec_up]"
    by code_simp
  have x: "\<exists>u\<in>set [rec_up]. py_get u ''username'' = Inr (PStr ''a'') \<and>
      py_get u ''password'' = Inr (PStr ''p'')"
    by (simp add: rec_up_def)
  have q: "requests ?e1 = [GET Accept_raw]" "requests (remote world_dup) = []"
    "now (remote world_dup) = []"
    by (simp_all add: world_dup_def remote1_def)
  have p: "lib_loads stdlib sha_abc = Inr (PDict [(''sha'', PStr ''abc'')])"
    by code_simp
  have sv: "serves_sha stdlib ?e2 ''abc''"
    unfolding serves_sha_def using p by simp
  have ds: "lib_dumps stdlib (PList ([rec_up] @ [?nu])) = Inr (json_dumps (PList [rec_up, ?nu]))"
    by code_simp
  note T = duplicate_needs_confirmation [OF u c l1 d x l2, of cb_offline_yes, unfolded Let_def]
  show ?thesis
    using T
      T [THEN conjunct2, THEN conjunct2, THEN conjunct2, THEN conjunct2, THEN conjunct2,
        THEN conjunct2, THEN conjunct2, rule_format,
        where tok = "''abc''" and sd = "json_dumps (PList [rec_up, ?nu])"]
      q sv ds
    by (simp add: numeral_2_eq_2)
qed
section \<open>The codec inverts itself\<close>

subsection \<open>White space\<close>

lemma dropWhile_replicate: "P c \<Longrightarrow> dropWhile P (replicate n c @ s) = dropWhile P s"
  by (induction n) simp_all

lemma skip_ws_newline_indent: "skip_ws (newline_indent l @ s) = skip_ws s"
  by (simp add: skip_ws_def newline_indent_def is_ws_def dropWhile_replicate)

lemma skip_ws_Cons: "\<not> is_ws c \<Longrightarrow> skip_ws (c # s) = c # s"
  by (simp add: skip_ws_def)

subsection \<open>Strings\<close>

lemma hex_val_hex_char: "n < 16 \<Longrightarrow> hex_val (hex_char n) = Some n"
  by (auto simp: hex_val_def hex_char_def Let_def)

lemma decode_control:
  assumes "(of_char c :: nat) < 32"
  shows "decode_uXXXX (CHR ''0'' # CHR ''0'' # hex_char (of_char c div 16) # hex_char (of_char c mod 16) # s)
    = Some (of_char c)"
proof -
  have "(of_char c :: nat) div 16 < 16" using assms by simp
  then show ?thesis
    by (simp add: decode_uXXXX_def hex_val_hex_char) (simp add: hex_val_def)
qed

lemma scanstring_escape:
  "scanstring (escape_char c @ s) = map_option (\<lambda>(t, r). (c # t, r)) (scanstring s)"
proof -
  consider "c = dq" | "c = bslash" | "c = CHR 0x0A" | "c = CHR 0x0D" | "c = CHR 0x09"
    | "c = CHR 0x08" | "c = CHR 0x0C"
    | "c \<notin> {dq, bslash, CHR 0x0A, CHR 0x0D, CHR 0x09, CHR 0x08, CHR 0x0C}" "(of_char c :: nat) < 32"
    | "c \<notin> {dq, bslash, CHR 0x0A, CHR 0x0D, CHR 0x09, CHR 0x08, CHR 0x0C}" "\<not> (of_char c :: nat) < 32"
    by blast
  then show ?thesis
  proof cases
    case 8
    have u: "utf8 (of_char c) = [c]" using 8(2) by (simp add: utf8_def)
    show ?thesis
      using 8 by (simp add: escape_char_def decode_control u dq_def bslash_def)
  qed (simp_all add: escape_char_def backslash_def dq_def bslash_def)
qed

lemma scanstring_escaped:
  "scanstring (concat (map escape_char s) @ dq # r) = Some (s, r)"
  by (induction s) (simp_all add: scanstring_escape)

lemma scan_once_string:
  "scan_once (Suc n) (encode_basestring s @ r) = Some (PStr s, r)"
  by (simp add: encode_basestring_def scanstring_escaped)


subsection \<open>Numbers\<close>

lemma show_nat_small: "n < 10 \<Longrightarrow> show_nat n = [digit_char n]"
  by (subst show_nat.simps) simp

lemma digit_char_zero:
  assumes "n < 10"
  shows "(digit_char n = CHR ''0'') = (n = 0)"
proof
  assume "digit_char n = CHR ''0''"
  then have "(of_char (digit_char n) :: nat) = of_char CHR ''0''" by simp
  then show "n = 0" using assms by (simp add: digit_char_def)
next
  assume "n = 0"
  moreover have "char_of (48 :: nat) = CHR ''0''" by code_simp
  ultimately show "digit_char n = CHR ''0''" by (simp add: digit_char_def)
qed

lemma show_nat_head: "\<exists>d ds. show_nat n = d # ds \<and> (0 < n \<longrightarrow> d \<noteq> CHR ''0'')"
proof (induction n rule: show_nat.induct)
  case (1 n)
  show ?case
  proof (cases "n < 10")
    case True
    then show ?thesis by (simp add: show_nat_small digit_char_zero)
  next
    case False
    with 1 obtain d ds where "show_nat (n div 10) = d # ds" "d \<noteq> CHR ''0''"
      by fastforce
    with False show ?thesis by (subst show_nat.simps) simp
  qed
qed

lemma takeWhile_digits:
  "list_all is_digit ds \<Longrightarrow> number_ends r \<Longrightarrow> takeWhile is_digit (ds @ r) = ds"
  by (induction ds) (auto simp: number_ends_def split: list.splits)

lemma match_frac_none: "number_ends r \<Longrightarrow> match_frac r = ([], r)"
  by (auto simp: match_frac_def number_ends_def split: list.splits)

lemma match_exp_none: "number_ends r \<Longrightarrow> match_exp r = ([], r)"
  by (auto simp: match_exp_def number_ends_def split: list.splits)

lemma match_number_nat:
  assumes "number_ends r"
  shows "match_number (show_nat n @ r) = Some (PInt (int n), r)"
proof -
  obtain d ds where s: "show_nat n = d # ds" and z: "0 < n \<longrightarrow> d \<noteq> CHR ''0''"
    using show_nat_head by blast
  have dg: "is_digit d" "list_all is_digit ds"
    using show_nat_digits [of n] s by simp_all
  have m: "d \<noteq> CHR ''-''" using dg(1) by (auto simp: is_digit_def)
  have ds0: "d = CHR ''0'' \<Longrightarrow> ds = []"
  proof -
    assume "d = CHR ''0''"
    with z have "n = 0" by simp
    with s show "ds = []" by (simp add: show_nat_small)
  qed
  have ip: "(if d = CHR ''0'' then [d] else d # takeWhile is_digit (ds @ r)) = d # ds"
    using ds0 takeWhile_digits [OF dg(2) assms] by simp
  have v: "int_of_digits (d # ds) = n"
    using int_of_digits_show_nat [of n] s by simp
  show ?thesis
    using m dg(1) assms
    by (simp add: s match_number_def Let_def ip match_frac_none match_exp_none v)
qed

lemma match_number_int:
  assumes "number_ends r"
  shows "match_number (show_int i @ r) = Some (PInt i, r)"
proof (cases "i < 0")
  case False
  then show ?thesis
    using match_number_nat [OF assms, of "nat i"] by (simp add: show_int_def)
next
  case True
  define n where "n = nat (- i)"
  have n: "0 < n" "int n = - i" using True by (simp_all add: n_def)
  obtain d ds where s: "show_nat n = d # ds" and z: "d \<noteq> CHR ''0''"
    using show_nat_head [of n] n(1) by auto
  have dg: "is_digit d" "list_all is_digit ds"
    using show_nat_digits [of n] s by simp_all
  have ip: "takeWhile is_digit (ds @ r) = ds"
    using takeWhile_digits [OF dg(2) assms] .
  have v: "int_of_digits (d # ds) = n"
    using int_of_digits_show_nat [of n] s by simp
  show ?thesis
    using True dg(1) z assms n(2)
    by (simp add: show_int_def n_def [symmetric] s match_number_def Let_def ip
        match_frac_none match_exp_none v)
qed

lemma show_int_head:
  "\<exists>d ds. show_int i = d # ds \<and> (is_digit d \<or> d = CHR ''-'')"
proof -
  obtain d ds where "show_nat (nat \<bar>i\<bar>) = d # ds" using show_nat_head by blast
  moreover have "is_digit d" using show_nat_digits [of "nat \<bar>i\<bar>"] calculation by simp
  ultimately show ?thesis
    by (cases "i < 0") (auto simp: show_int_def abs_if)
qed

lemma scan_once_int:
  assumes "number_ends r"
  shows "scan_once (Suc n) (show_int i @ r) = Some (PInt i, r)"
proof -
  obtain d ds where s: "show_int i = d # ds" and d: "is_digit d \<or> d = CHR ''-''"
    using show_int_head by blast
  have ne: "d \<noteq> dq" "d \<noteq> CHR ''{''" "d \<noteq> CHR ''[''" "d \<noteq> CHR ''n''" "d \<noteq> CHR ''t''"
    "d \<noteq> CHR ''f''"
    using d by (auto simp: is_digit_def dq_def)
  have "match_number (d # ds @ r) = Some (PInt i, r)"
    using match_number_int [OF assms, of i] s by simp
  then show ?thesis using ne by (simp add: s)
qed

subsection \<open>Documents\<close>

lemma number_ends_simps [simp]:
  "number_ends (newline_indent l @ s)" "number_ends (CHR '','' # s)" "number_ends []"
  by (simp_all add: number_ends_def newline_indent_def is_digit_def)

lemma encode_basestring_Cons:
  "encode_basestring s = dq # concat (map escape_char s) @ [dq]"
  by (simp add: encode_basestring_def)

lemma iterencode_head:
  "json_plain v \<Longrightarrow> \<exists>d ds. iterencode l v = d # ds \<and> \<not> is_ws d \<and> d \<noteq> CHR '']''"
proof (cases v)
  case (PInt i)
  obtain d ds where "show_int i = d # ds" "is_digit d \<or> d = CHR ''-''"
    using show_int_head by blast
  then show ?thesis using PInt by (auto simp: is_ws_def is_digit_def)
next
  case (PList xs)
  then show ?thesis by (cases xs) (simp_all add: is_ws_def)
next
  case (PDict kvs)
  then show ?thesis by (cases kvs) (simp_all add: is_ws_def)
qed (simp_all add: is_ws_def encode_basestring_def dq_def)

lemma skip_ws_iterencode:
  "json_plain v \<Longrightarrow> skip_ws (iterencode l v @ s) = iterencode l v @ s"
  using iterencode_head [of v l] by (auto simp: skip_ws_Cons)

lemma iterencode_not_Nil: "json_plain v \<Longrightarrow> iterencode l v \<noteq> []"
  using iterencode_head [of v l] by auto

lemma skip_ws_space: "skip_ws (CHR '' '' # s) = skip_ws s"
  by (simp add: skip_ws_def is_ws_def)

lemma parse_array_items:
  assumes IH: "\<And>x l n r. x \<in> set (y # ys) \<Longrightarrow> json_plain x \<Longrightarrow> number_ends r \<Longrightarrow>
      length (iterencode l x) \<le> n \<Longrightarrow> scan_once n (iterencode l x @ r) = Some (x, r)"
    and plain: "list_all json_plain (y # ys)"
    and fuel: "length (iterencode l y @ iterencode_list l ys) < n"
  shows "parse_array n
      (iterencode l y @ iterencode_list l ys @ newline_indent l' @ CHR '']'' # r)
    = Some (y # ys, r)"
  using assms
proof (induction ys arbitrary: y n)
  case Nil
  then obtain m where n: "n = Suc m" by (cases n) auto
  have "scan_once m (iterencode l y @ newline_indent l' @ CHR '']'' # r)
      = Some (y, newline_indent l' @ CHR '']'' # r)"
    using Nil n by (intro Nil.prems(1)) simp_all
  then show ?case
    by (simp add: n skip_ws_newline_indent skip_ws_Cons is_ws_def)
next
  case (Cons z zs)
  then obtain m where n: "n = Suc m" by (cases n) auto
  let ?rest = "iterencode l z @ iterencode_list l zs @ newline_indent l' @ CHR '']'' # r"
  have 1: "scan_once m (iterencode l y @ CHR '','' # newline_indent l @ ?rest)
      = Some (y, CHR '','' # newline_indent l @ ?rest)"
    using Cons.prems n by (intro Cons.prems(1)) simp_all
  have pz: "json_plain z" using Cons.prems(2) by simp
  have "iterencode l y \<noteq> []"
    using Cons.prems(2) by (simp add: iterencode_not_Nil)
  then have "0 < length (iterencode l y)" by blast
  then have f: "length (iterencode l z @ iterencode_list l zs) < m"
    using Cons.prems(3) n by simp
  have 2: "parse_array m ?rest = Some (z # zs, r)"
    using Cons.prems(1,2) f by (intro Cons.IH) simp_all
  show ?case
    using 1 2 pz
    by (simp add: n skip_ws_newline_indent skip_ws_Cons is_ws_def skip_ws_iterencode)
qed

lemma parse_object_items:
  assumes IH: "\<And>kv l n r. kv \<in> set (p # ps) \<Longrightarrow> json_plain (snd kv) \<Longrightarrow> number_ends r \<Longrightarrow>
      length (iterencode l (snd kv)) \<le> n \<Longrightarrow>
      scan_once n (iterencode l (snd kv) @ r) = Some (snd kv, r)"
    and plain: "list_all (\<lambda>kv. json_plain (snd kv)) (p # ps)"
    and fuel: "length (iterencode l (snd p) @ iterencode_dict l ps) < n"
  shows "parse_object n
      (concat (map escape_char (fst p)) @ dq # CHR '':'' # CHR '' '' # iterencode l (snd p)
         @ iterencode_dict l ps @ newline_indent l' @ CHR ''}'' # r)
    = Some (p # ps, r)"
  using assms
proof (induction ps arbitrary: p n)
  case Nil
  then obtain m where n: "n = Suc m" by (cases n) auto
  have "scan_once m (iterencode l (snd p) @ newline_indent l' @ CHR ''}'' # r)
      = Some (snd p, newline_indent l' @ CHR ''}'' # r)"
    using Nil n by (intro Nil.prems(1)) simp_all
  moreover have "json_plain (snd p)" using Nil.prems(2) by simp
  ultimately show ?case
    by (simp add: n scanstring_escaped skip_ws_newline_indent skip_ws_Cons is_ws_def
        skip_ws_iterencode skip_ws_space)
next
  case (Cons q qs)
  then obtain m where n: "n = Suc m" by (cases n) auto
  let ?rest = "concat (map escape_char (fst q)) @ dq # CHR '':'' # CHR '' '' # iterencode l (snd q)
         @ iterencode_dict l qs @ newline_indent l' @ CHR ''}'' # r"
  have 1: "scan_once m (iterencode l (snd p) @ CHR '','' # newline_indent l @ dq # ?rest)
      = Some (snd p, CHR '','' # newline_indent l @ dq # ?rest)"
    using Cons.prems n by (intro Cons.prems(1)) simp_all
  have pp: "json_plain (snd p)" using Cons.prems(2) by simp
  then have "iterencode l (snd p) \<noteq> []"
    by (simp add: iterencode_not_Nil)
  then have "0 < length (iterencode l (snd p))" by blast
  then have f: "length (iterencode l (snd q) @ iterencode_dict l qs) < m"
    using Cons.prems(3) n by simp
  have 2: "parse_object m ?rest = Some (q # qs, r)"
    using Cons.prems(1,2) f by (intro Cons.IH) simp_all
  have dq: "\<not> is_ws dq" "dq \<noteq> CHR ''}''"
    by (simp_all add: dq_def is_ws_def)
  have c: "\<not> is_ws CHR '':''" "\<not> is_ws CHR '',''"
    by (simp_all add: is_ws_def)
  show ?case
    using 1 2 pp dq c
    by (simp add: n scanstring_escaped skip_ws_newline_indent skip_ws_Cons
        skip_ws_iterencode skip_ws_space encode_basestring_Cons)
qed


lemma dict_set_fresh: "k \<notin> fst ` set d \<Longrightarrow> dict_set k v d = d @ [(k, v)]"
  by (induction d) auto

lemma foldl_dict_set:
  "distinct (map fst (d @ ps)) \<Longrightarrow>
   foldl (\<lambda>d p. dict_set (fst p) (snd p) d) d ps = d @ ps"
proof (induction ps arbitrary: d)
  case Nil
  then show ?case by simp
next
  case (Cons p ps)
  have "fst p \<notin> fst ` set d" using Cons.prems by auto
  then have "dict_set (fst p) (snd p) d = d @ [p]" by (simp add: dict_set_fresh)
  moreover have "distinct (map fst ((d @ [p]) @ ps))" using Cons.prems by simp
  ultimately show ?case using Cons.IH [of "d @ [p]"] by simp
qed

lemma dict_of_pairs_distinct: "distinct (map fst ps) \<Longrightarrow> dict_of_pairs ps = ps"
  using foldl_dict_set [of "[]" ps] by (simp add: dict_of_pairs_def)

lemma scan_once_iterencode:
  "json_plain v \<Longrightarrow> number_ends r \<Longrightarrow> length (iterencode l v) \<le> n \<Longrightarrow>
   scan_once n (iterencode l v @ r) = Some (v, r)"
proof (induction v arbitrary: l n r)
  case PNone
  then obtain m where "n = Suc m" by (cases n) auto
  then show ?case by (simp add: dq_def)
next
  case (PBool b)
  then obtain m where "n = Suc m" by (cases n) (auto split: if_splits)
  then show ?case by (simp add: dq_def)
next
  case (PInt i)
  obtain d ds where "show_int i = d # ds" using show_int_head by blast
  with PInt obtain m where n: "n = Suc m" by (cases n) auto
  show ?case
    unfolding n iterencode.simps by (rule scan_once_int [OF PInt.prems(2)])
next
  case (PFloat f)
  then show ?case by simp
next
  case (PStr s)
  then obtain m where n: "n = Suc m" by (cases n) (auto simp: encode_basestring_def)
  show ?case
    unfolding n iterencode.simps by (rule scan_once_string)
next
  case (PList xs)
  show ?case
  proof (cases xs)
    case Nil
    with PList obtain m where "n = Suc m" by (cases n) auto
    with Nil show ?thesis by (simp add: dq_def skip_ws_Cons is_ws_def)
  next
    case (Cons y ys)
    with PList.prems obtain m where n: "n = Suc m" by (cases n) auto
    obtain d ds where h: "iterencode (Suc l) y = d # ds" "\<not> is_ws d" "d \<noteq> CHR '']''"
      using iterencode_head [of y "Suc l"] PList.prems(1) Cons by auto
    have f: "length (iterencode (Suc l) y @ iterencode_list (Suc l) ys) < m"
      using PList.prems(3) n Cons by (simp add: newline_indent_def)
    have "parse_array m
        (iterencode (Suc l) y @ iterencode_list (Suc l) ys @ newline_indent l @ CHR '']'' # r)
      = Some (y # ys, r)"
      using PList.IH PList.prems(1) f Cons by (intro parse_array_items) simp_all
    then show ?thesis
      using h Cons
      by (simp add: n dq_def skip_ws_newline_indent skip_ws_Cons)
  qed
next
  case (PDict kvs)
  show ?case
  proof (cases kvs)
    case Nil
    with PDict obtain m where "n = Suc m" by (cases n) auto
    with Nil show ?thesis by (simp add: dq_def skip_ws_Cons is_ws_def)
  next
    case (Cons p ps)
    with PDict.prems obtain m where n: "n = Suc m" by (cases n) auto
    have f: "length (iterencode (Suc l) (snd p) @ iterencode_dict (Suc l) ps) < m"
      using PDict.prems(3) n Cons by (simp add: newline_indent_def)
    have ih: "scan_once n' (iterencode l' (snd kv) @ r') = Some (snd kv, r')"
      if "kv \<in> set (p # ps)" "json_plain (snd kv)" "number_ends r'"
        "length (iterencode l' (snd kv)) \<le> n'" for kv l' n' r'
    proof -
      have "snd kv \<in> Basic_BNFs.snds kv" by (cases kv) simp
      with that Cons show ?thesis by (intro PDict.IH [of kv "snd kv"]) simp_all
    qed
    have "parse_object m
        (concat (map escape_char (fst p)) @ dq # CHR '':'' # CHR '' '' # iterencode (Suc l) (snd p)
           @ iterencode_dict (Suc l) ps @ newline_indent l @ CHR ''}'' # r)
      = Some (p # ps, r)"
      using ih PDict.prems(1) f Cons by (intro parse_object_items) simp_all
    moreover have "dict_of_pairs (p # ps) = p # ps"
      using PDict.prems(1) Cons by (intro dict_of_pairs_distinct) simp
    moreover have "\<not> is_ws dq" "dq \<noteq> CHR ''}''" "CHR ''{'' \<noteq> dq"
      by (simp_all add: dq_def is_ws_def)
    ultimately show ?thesis
      using Cons
      by (simp add: n skip_ws_newline_indent skip_ws_Cons encode_basestring_Cons)
  qed
qed

text \<open>\<^verbatim>\<open>json.loads\<close> reads back what \<^verbatim>\<open>json.dumps\<close> wrote.\<close>

lemma json_loads_json_dumps:
  assumes "json_plain v"
  shows "json_loads (json_dumps v) = Some v"
proof -
  have 1: "skip_ws (iterencode 0 v) = iterencode 0 v"
    using skip_ws_iterencode [OF assms, of 0 "[]"] by simp
  have "scan_once (Suc (length (iterencode 0 v))) (iterencode 0 v @ []) = Some (v, [])"
    by (rule scan_once_iterencode [OF assms]) simp_all
  then have 2: "scan_once (Suc (length (iterencode 0 v))) (iterencode 0 v) = Some (v, [])"
    by (simp del: scan_once.simps)
  have 3: "skip_ws [] = []" by (simp add: skip_ws_def)
  show ?thesis
    unfolding json_loads_def json_dumps_def 1 2 by (simp add: 3)
qed

subsection \<open>Save, then load\<close>

text \<open>
  Claim C8. When \<^verbatim>\<open>save_users\<close> of a collection succeeds and the store answers the next
  request with status 200 and the document of that update (nobody changed it in between),
  \<^verbatim>\<open>load_users\<close> returns the collection that was saved, with the same records in the same
  order: \<^verbatim>\<open>json.loads\<close> inverts \<^verbatim>\<open>json.dumps\<close> with an indent of 2. The collection holds
  no float and no dict with a key twice.
\<close>

theorem save_then_load:
  assumes "json_plain (PList c)"
    and "save_users stdlib (PList c) e = (Inr True, e1)"
    and "\<exists>cd rs. last (requests e1) = PUT cd \<and> responses e1 = Response 200 (content cd) # rs"
  shows "fst (load_users stdlib e1) = Inr (PList c)"
proof -
  from assms(2) have "fst (save_users stdlib (PList c) e) = Inr True" by simp
  from save_users_true [OF this] assms(2) obtain cd where
    cd: "lib_dumps stdlib (PList c) = Inr (content cd)"
      "requests e1 = requests e @ [GET Accept_json, PUT cd]"
    by auto
  from cd(1) have "content cd = json_dumps (PList c)"
    by (simp add: stdlib_def split: if_splits)
  with assms(3) cd(2) obtain rs where "responses e1 = Response 200 (json_dumps (PList c)) # rs"
    by auto
  moreover have "lib_loads stdlib (json_dumps (PList c)) = Inr (PList c)"
    using json_loads_json_dumps [OF assms(1)] by (simp add: stdlib_def)
  ultimately show ?thesis
    by (simp add: load_users_parsed load_users_parse_def)
qed

text \<open>The collection of one record, saved and loaded.\<close>

theorem save_then_load_witness:
  "fst (save_users stdlib (PList [rec_up]) remote_save) = Inr True \<and>
   fst (load_users stdlib (snd (save_users stdlib (PList [rec_up]) remote_save)))
     = Inr (PList [rec_up])"
proof -
  let ?cd = "make_commit single_record 1 (PStr ''abc'') []"
  let ?e1 = "\<lparr>responses = [Response 200 single_record],
      requests = [GET Accept_json, PUT ?cd], now = []\<rparr>"
  have p: "json_plain (PList [rec_up])"
    by code_simp
  have s: "save_users stdlib (PList [rec_up]) remote_save = (Inr True, ?e1)"
    by code_simp
  have "last (requests ?e1) = PUT ?cd \<and> responses ?e1 = Response 200 (content ?cd) # []"
    by (simp add: make_commit_def)
  then have x: "\<exists>cd rs. last (requests ?e1) = PUT cd \<and> responses ?e1 = Response 200 (content cd) # rs"
    by blast
  show ?thesis
    using save_then_load [OF p s x] s by simp
qed
end
